theory Spec2Isabelle
  imports Main "HOL-Library.AList"
begin

section \<open>JavaScript values and strings\<close>

text \<open>
  The values the pipeline reads from and writes to storage are JSON documents. A parsed
  document is a \<open>json\<close> value; a property that is not there reads as JavaScript's
  \<open>undefined\<close>, which is \<open>None\<close> here. Numbers are the integers the documents
  hold (counts, sizes, milliseconds).
\<close>

datatype json =
    JNull
  | JBool bool
  | JNum int
  | JStr string
  | JArr "json list"
  | JObj "(string \<times> json) list"

text \<open>JavaScript truthiness: \<open>null\<close>, \<open>false\<close>, \<open>0\<close> and the empty string are falsy;
  every array and every object is truthy, the empty ones too.\<close>

fun truthy :: "json \<Rightarrow> bool" where
  "truthy JNull = False"
| "truthy (JBool b) = b"
| "truthy (JNum n) = (n \<noteq> 0)"
| "truthy (JStr s) = (s \<noteq> [])"
| "truthy (JArr xs) = True"
| "truthy (JObj kvs) = True"

text \<open>\<open>v.k\<close> on a value that is neither \<open>null\<close> nor \<open>undefined\<close>: the property of
  an object, \<open>undefined\<close> on anything else (none of the property names the pipeline
  reads is a built-in property of a string, number or array).\<close>

definition jget :: "json \<Rightarrow> string \<Rightarrow> json option" where
  "jget v k = (case v of JObj kvs \<Rightarrow> map_of kvs k | _ \<Rightarrow> None)"

text \<open>\<open>a || d\<close> where \<open>a\<close> may be \<open>undefined\<close>.\<close>

definition or_else :: "json option \<Rightarrow> json \<Rightarrow> json" where
  "or_else a d = (case a of None \<Rightarrow> d | Some v \<Rightarrow> if truthy v then v else d)"


text \<open>\<open>s || d\<close> on strings that may be \<open>undefined\<close>: the empty string is falsy.\<close>

definition str_or :: "string option \<Rightarrow> string \<Rightarrow> string" where
  "str_or a d = (case a of None \<Rightarrow> d | Some s \<Rightarrow> if s = [] then d else s)"

text \<open>\<open>String.prototype.includes\<close>, \<open>startsWith\<close>, \<open>endsWith\<close> and
  \<open>replace\<close> with a string pattern (the first occurrence only).\<close>

definition startsWith :: "string \<Rightarrow> string \<Rightarrow> bool" where
  "startsWith s p = (take (length p) s = p)"

definition endsWith :: "string \<Rightarrow> string \<Rightarrow> bool" where
  "endsWith s p = (length p \<le> length s \<and> drop (length s - length p) s = p)"

fun str_includes :: "string \<Rightarrow> string \<Rightarrow> bool" where
  "str_includes [] p = (p = [])"
| "str_includes (c # cs) p = (startsWith (c # cs) p \<or> str_includes cs p)"

fun replace_first :: "string \<Rightarrow> string \<Rightarrow> string \<Rightarrow> string" where
  "replace_first [] p r = (if p = [] then r else [])"
| "replace_first (c # cs) p r =
     (if startsWith (c # cs) p then r @ drop (length p) (c # cs)
      else c # replace_first cs p r)"

text \<open>\<open>toLowerCase\<close> on the ASCII letters, which is what file names and extensions use.\<close>

definition lower_char :: "char \<Rightarrow> char" where
  "lower_char c =
     (let n = (of_char c :: nat) in if 65 \<le> n \<and> n \<le> 90 then char_of (n + 32) else c)"

definition toLowerCase :: "string \<Rightarrow> string" where
  "toLowerCase s = map lower_char s"

definition dq :: string where
  "dq = [CHR 0x22]"

section \<open>The Artifact Store and the Work Queue (backend/shared/storage.js, unnamed/part_006)\<close>

text \<open>
  The Azure SDK is outside the repository. Its calls are the operations \<open>sdk_op\<close>; each
  call either throws with a message or does its work on the \<open>world\<close>. Which calls throw is
  the fault schedule of the \<open>runtime\<close>: \<open>fault rt n op = Some msg\<close> says that \<open>op\<close>,
  issued after \<open>n\<close> effects, throws \<open>msg\<close>. Every write and every enqueue appends to the
  \<open>trace\<close> of the world, also when it fails, so the trace gives the order of the effects and
  its length is the time the schedule is read at. Reads leave the world as it is.
\<close>

datatype sdk_op =
    CreateContainer string
  | BlobExists string string
  | BlobDownload string string
  | BlobUpload string string
  | ListBlobsFlat string string
  | QueueCreate string
  | QueueSend string
  | WebhookPost string

record blob =
  data :: string
  contentType :: string
  lastModified :: string

text \<open>The prompts sent to the model collaborator: which template, and the work item it is
  filled with. The first three are the templates of \<open>promptTemplates.js\<close>, the last two
  the prompts of \<open>testGenerator.js\<close> (the script prompt also names the critical
  scenario).\<close>

datatype prompt =
    CombinedPrompt json
  | TestScriptPrompt json
  | ExploratoryScenariosPrompt json
  | GeneratorScenariosPrompt json
  | GeneratorScriptPrompt json json

datatype event =
    ContainerEnsured string
  | Uploaded string string string
  | QueueEnsured string
  | Enqueued string json
  | Prompted prompt
  | Notified string
  | Failed sdk_op string

record world =
  containers :: "string list"
  blobs :: "((string \<times> string) \<times> blob) list"
  queue :: "(string \<times> json) list"
  trace :: "event list"

text \<open>
  The runtime also holds what the JavaScript engine and the other collaborators answer:
  \<open>JSON.parse\<close> (\<open>Inl\<close> is the syntax error) and \<open>JSON.stringify\<close>, the conversion
  of a string, array or object to a number (\<open>None\<close> is \<open>NaN\<close>), the three regular
  expressions of the generator (the captured text, \<open>None\<close> without a match),
  \<open>uuidv4\<close>, the clock, and the chat completion of the model collaborator (\<open>Inl\<close> when
  the call throws or the reply has no content).
\<close>

record runtime =
  env :: "string \<Rightarrow> string option"
  fault :: "nat \<Rightarrow> sdk_op \<Rightarrow> string option"
  json_parse :: "string \<Rightarrow> string + json"
  json_stringify :: "json \<Rightarrow> string"
  to_number :: "json \<Rightarrow> int option"
  md_json_block :: "string \<Rightarrow> string option"
  array_match :: "string \<Rightarrow> string option"
  code_block :: "string \<Rightarrow> string option"
  uuid :: "nat \<Rightarrow> nat \<Rightarrow> string"
  chat :: "nat \<Rightarrow> prompt \<Rightarrow> string + string"
  account_url :: string
  now :: string

text \<open>\<open>process.env.X || d\<close>.\<close>

definition env_or :: "runtime \<Rightarrow> string \<Rightarrow> string \<Rightarrow> string" where
  "env_or rt x d = str_or (env rt x) d"

definition clock :: "world \<Rightarrow> nat" where
  "clock w = length (trace w)"

definition log_event :: "event \<Rightarrow> world \<Rightarrow> world" where
  "log_event e w = w\<lparr>trace := trace w @ [e]\<rparr>"

text \<open>\<open>getBlobServiceClient\<close> and \<open>getContainerClient\<close>: they throw without a connection
  string or a container name, and talk to no service.\<close>

definition getBlobServiceClient :: "runtime \<Rightarrow> string + unit" where
  "getBlobServiceClient rt =
     (if str_or (env rt ''AZURE_STORAGE_CONNECTION_STRING'') [] = []
      then Inl ''Azure Storage connection string is required. Set AZURE_STORAGE_CONNECTION_STRING environment variable or pass it as parameter.''
      else Inr ())"

definition getContainerClient :: "runtime \<Rightarrow> string \<Rightarrow> string + unit" where
  "getContainerClient rt containerName =
     (if containerName = [] then Inl ''Container name is required''
      else getBlobServiceClient rt)"

text \<open>\<open>blockBlobClient.url\<close>.\<close>

definition blob_url :: "runtime \<Rightarrow> string \<Rightarrow> string \<Rightarrow> string" where
  "blob_url rt containerName blobName = account_url rt @ ''/'' @ containerName @ ''/'' @ blobName"

definition download_failed :: "string \<Rightarrow> string \<Rightarrow> string \<Rightarrow> string" where
  "download_failed blobName containerName msg =
     ''Failed to download blob '' @ dq @ blobName @ dq @ '' from container '' @ dq @ containerName @ dq
       @ '': '' @ msg"

definition blob_missing :: "string \<Rightarrow> string \<Rightarrow> string" where
  "blob_missing blobName containerName =
     ''Blob '' @ dq @ blobName @ dq @ '' does not exist in container '' @ dq @ containerName @ dq"

text \<open>\<open>downloadBlob\<close> (as a buffer) followed by \<open>toString\<close>: every failure inside is
  rethrown with the blob and the container in the message.\<close>

definition downloadBlobAsString :: "runtime \<Rightarrow> world \<Rightarrow> string \<Rightarrow> string \<Rightarrow> string + string" where
  "downloadBlobAsString rt w containerName blobName =
     (case getContainerClient rt containerName of
        Inl msg \<Rightarrow> Inl (download_failed blobName containerName msg)
      | Inr _ \<Rightarrow>
        (case fault rt (clock w) (BlobExists containerName blobName) of
           Some msg \<Rightarrow> Inl (download_failed blobName containerName msg)
         | None \<Rightarrow>
           (case map_of (blobs w) (containerName, blobName) of
              None \<Rightarrow> Inl (download_failed blobName containerName (blob_missing blobName containerName))
            | Some b \<Rightarrow>
              (case fault rt (clock w) (BlobDownload containerName blobName) of
                 Some msg \<Rightarrow> Inl (download_failed blobName containerName msg)
               | None \<Rightarrow> Inr (data b)))))"

definition downloadBlobAsJson :: "runtime \<Rightarrow> world \<Rightarrow> string \<Rightarrow> string \<Rightarrow> string + json" where
  "downloadBlobAsJson rt w containerName blobName =
     (case downloadBlobAsString rt w containerName blobName of
        Inl msg \<Rightarrow> Inl msg
      | Inr content \<Rightarrow>
        (case json_parse rt content of
           Inl msg \<Rightarrow> Inl (''Failed to parse JSON from blob '' @ dq @ blobName @ dq @ '': '' @ msg)
         | Inr v \<Rightarrow> Inr v))"

record blob_item =
  item_name :: string
  contentLength :: int
  item_lastModified :: string

text \<open>\<open>listBlobs\<close>: the blobs of the container whose name starts with the prefix (no
  prefix and the empty prefix list them all). Listing a container that does not exist
  throws, as the service answers \<open>ContainerNotFound\<close>.\<close>

definition listBlobs :: "runtime \<Rightarrow> world \<Rightarrow> string \<Rightarrow> string \<Rightarrow> string + blob_item list" where
  "listBlobs rt w containerName pre =
     (let failed = (\<lambda>msg. ''Failed to list blobs in container '' @ dq @ containerName @ dq @ '': '' @ msg)
      in case getContainerClient rt containerName of
        Inl msg \<Rightarrow> Inl (failed msg)
      | Inr _ \<Rightarrow>
        (case fault rt (clock w) (ListBlobsFlat containerName pre) of
           Some msg \<Rightarrow> Inl (failed msg)
         | None \<Rightarrow>
           if containerName \<notin> set (containers w) then Inl (failed ''ContainerNotFound'')
           else Inr (map (\<lambda>(k, b). \<lparr>item_name = snd k, contentLength = int (length (data b)),
                                     item_lastModified = lastModified b\<rparr>)
                      (filter (\<lambda>(k, b). fst k = containerName \<and> startsWith (snd k) pre) (blobs w)))))"

text \<open>\<open>uploadBlob\<close>: the container is created if it is not there, then the blob is
  written under its name, replacing what was there. Both calls can throw; the catch block
  rethrows with the blob and the container in the message. The result is the blob's URL.\<close>

definition upload_failed :: "string \<Rightarrow> string \<Rightarrow> string \<Rightarrow> string" where
  "upload_failed blobName containerName msg =
     ''Failed to upload blob '' @ dq @ blobName @ dq @ '' to container '' @ dq @ containerName @ dq
       @ '': '' @ msg"

definition uploadBlob ::
  "runtime \<Rightarrow> world \<Rightarrow> string \<Rightarrow> string \<Rightarrow> string \<Rightarrow> string \<Rightarrow> (string + string) \<times> world" where
  "uploadBlob rt w containerName blobName content ctype =
     (case getContainerClient rt containerName of
        Inl msg \<Rightarrow> (Inl (upload_failed blobName containerName msg), w)
      | Inr _ \<Rightarrow>
        (case fault rt (clock w) (CreateContainer containerName) of
           Some msg \<Rightarrow>
             (Inl (upload_failed blobName containerName msg),
              log_event (Failed (CreateContainer containerName) msg) w)
         | None \<Rightarrow>
           let w1 = log_event (ContainerEnsured containerName)
                      (w\<lparr>containers := List.insert containerName (containers w)\<rparr>)
           in (case fault rt (clock w1) (BlobUpload containerName blobName) of
                 Some msg \<Rightarrow>
                   (Inl (upload_failed blobName containerName msg),
                    log_event (Failed (BlobUpload containerName blobName) msg) w1)
               | None \<Rightarrow>
                   (Inr (blob_url rt containerName blobName),
                    log_event (Uploaded containerName blobName content)
                      (w1\<lparr>blobs := AList.update (containerName, blobName)
                                       \<lparr>data = content, contentType = ctype, lastModified = now rt\<rparr>
                                       (blobs w1)\<rparr>)))))"

text \<open>\<open>getQueueClient\<close> and \<open>enqueueMessage\<close>: the queue is created if it is not
  there, then the message is sent. An object is sent as its JSON text; the queue of the
  world holds the object.\<close>

definition getQueueClient :: "runtime \<Rightarrow> string \<Rightarrow> string + unit" where
  "getQueueClient rt queueName =
     (if queueName = [] then Inl ''Queue name is required''
      else if str_or (env rt ''AZURE_STORAGE_CONNECTION_STRING'') [] = []
      then Inl ''Azure Storage connection string is required. Set AZURE_STORAGE_CONNECTION_STRING environment variable or pass it as parameter.''
      else Inr ())"

definition enqueue_failed :: "string \<Rightarrow> string \<Rightarrow> string" where
  "enqueue_failed queueName msg =
     ''Failed to enqueue message to queue '' @ dq @ queueName @ dq @ '': '' @ msg"

definition enqueueMessage :: "runtime \<Rightarrow> world \<Rightarrow> string \<Rightarrow> json \<Rightarrow> (string + unit) \<times> world" where
  "enqueueMessage rt w queueName message =
     (case getQueueClient rt queueName of
        Inl msg \<Rightarrow> (Inl (enqueue_failed queueName msg), w)
      | Inr _ \<Rightarrow>
        (case fault rt (clock w) (QueueCreate queueName) of
           Some msg \<Rightarrow>
             (Inl (enqueue_failed queueName msg), log_event (Failed (QueueCreate queueName) msg) w)
         | None \<Rightarrow>
           let w1 = log_event (QueueEnsured queueName) w
           in (case fault rt (clock w1) (QueueSend queueName) of
                 Some msg \<Rightarrow>
                   (Inl (enqueue_failed queueName msg),
                    log_event (Failed (QueueSend queueName) msg) w1)
               | None \<Rightarrow>
                   (Inr (),
                    log_event (Enqueued queueName message)
                      (w1\<lparr>queue := queue w1 @ [(queueName, message)]\<rparr>)))))"

section \<open>The Status Aggregator (the job status function, unnamed/part_002)\<close>

text \<open>\<open>getTestSummary\<close>: the parsed summary document, \<open>null\<close> when the download fails
  with a message that contains \<open>does not exist\<close>, and the failure itself otherwise.\<close>

definition getTestSummary :: "runtime \<Rightarrow> world \<Rightarrow> string \<Rightarrow> string \<Rightarrow> string + json" where
  "getTestSummary rt w testId containerName =
     (case downloadBlobAsJson rt w containerName (testId @ ''/summary.json'') of
        Inr summary \<Rightarrow> Inr summary
      | Inl msg \<Rightarrow> if str_includes msg ''does not exist'' then Inr JNull else Inl msg)"

record listed =
  name :: string
  url :: string
  entry_size :: int
  modified :: string

text \<open>\<open>listBlobsByPrefix\<close>: the catch block returns the empty array on every failure of
  the listing.\<close>

definition listBlobsByPrefix :: "runtime \<Rightarrow> world \<Rightarrow> string \<Rightarrow> string \<Rightarrow> listed list" where
  "listBlobsByPrefix rt w containerName pre =
     (case listBlobs rt w containerName pre of
        Inl msg \<Rightarrow> []
      | Inr bs \<Rightarrow>
        (case getContainerClient rt containerName of
           Inl msg \<Rightarrow> []
         | Inr _ \<Rightarrow>
           map (\<lambda>b. \<lparr>name = replace_first (item_name b) pre [],
                     url = blob_url rt containerName (item_name b),
                     entry_size = contentLength b,
                     modified = item_lastModified b\<rparr>) bs))"

record evidence =
  screenshots :: json
  logs :: json
  reports :: json

definition evidence_entry :: "listed \<Rightarrow> json" where
  "evidence_entry b =
     JObj [(''name'', JStr (name b)), (''url'', JStr (url b)), (''size'', JNum (entry_size b)),
           (''lastModified'', JStr (modified b))]"

definition report_entry :: "listed \<Rightarrow> json" where
  "report_entry b =
     JObj [(''name'', JStr (name b)), (''url'', JStr (url b)),
           (''type'', JStr (if endsWith (toLowerCase (name b)) ''.json'' then ''json'' else ''html'')),
           (''size'', JNum (entry_size b)), (''lastModified'', JStr (modified b))]"

text \<open>\<open>getTestEvidence\<close>: the three listings. Its own catch block is never entered,
  since \<open>listBlobsByPrefix\<close> returns an array on every path.\<close>

definition getTestEvidence :: "runtime \<Rightarrow> world \<Rightarrow> string \<Rightarrow> string \<Rightarrow> evidence" where
  "getTestEvidence rt w testId containerName =
     \<lparr>screenshots = JArr (map evidence_entry (listBlobsByPrefix rt w containerName (testId @ ''/screenshots/''))),
      logs = JArr (map evidence_entry (listBlobsByPrefix rt w containerName (testId @ ''/logs/''))),
      reports = JArr (map report_entry (listBlobsByPrefix rt w containerName (testId @ ''/reports/'')))\<rparr>"

record status_view =
  testId :: json
  workItemId :: json
  status :: json
  summary :: json
  view_evidence :: evidence
  executedAt :: json
  retrievedAt :: string
  summaryBlobUrl :: json

definition buildResponse :: "runtime \<Rightarrow> json \<Rightarrow> evidence \<Rightarrow> string \<Rightarrow> status_view" where
  "buildResponse rt summ ev tid =
     (if truthy summ then
        \<lparr>testId = or_else (jget summ ''testId'') (JStr tid),
         workItemId = or_else (jget summ ''workItemId'') JNull,
         status = or_else (jget summ ''status'') (JStr ''unknown''),
         summary = or_else (jget summ ''summary'') JNull,
         view_evidence =
           \<lparr>screenshots = or_else (jget summ ''screenshots'') (screenshots ev),
            logs = or_else (jget summ ''logs'') (logs ev),
            reports = or_else (jget summ ''reports'') (reports ev)\<rparr>,
         executedAt = or_else (jget summ ''executedAt'') JNull,
         retrievedAt = now rt,
         summaryBlobUrl = or_else (jget summ ''summaryBlobUrl'') JNull\<rparr>
      else
        \<lparr>testId = JStr tid,
         workItemId = JNull,
         status = JStr ''not_found'',
         summary = JNull,
         view_evidence = ev,
         executedAt = JNull,
         retrievedAt = now rt,
         summaryBlobUrl = JNull\<rparr>)"

datatype body =
    View status_view
  | ErrorBody string string

record http_res =
  http_status :: nat
  http_body :: body

text \<open>The HTTP entry point. \<open>q\<close> and \<open>p\<close> are \<open>req.query.testId\<close> and
  \<open>req.params.testId\<close>.\<close>

definition JobStatus :: "runtime \<Rightarrow> world \<Rightarrow> string option \<Rightarrow> string option \<Rightarrow> http_res" where
  "JobStatus rt w q p =
     (let tid = str_or q (str_or p []) in
      if tid = [] then
        \<lparr>http_status = 400,
         http_body = ErrorBody ''testId query parameter is required'' ''/api/jobStatus?testId=your-test-id''\<rparr>
      else
        let containerName = env_or rt ''RESULTS_CONTAINER_NAME'' ''test-results'' in
        case getTestSummary rt w tid containerName of
          Inl msg \<Rightarrow>
            \<lparr>http_status = 500,
             http_body = ErrorBody ''Internal server error while retrieving test status'' msg\<rparr>
        | Inr summ \<Rightarrow>
            let response = buildResponse rt summ (getTestEvidence rt w tid containerName) tid;
                httpStatus = (if status response = JStr ''not_found'' then 404
                              else if status response = JStr ''error'' then 500 else 200)
            in \<lparr>http_status = httpStatus, http_body = View response\<rparr>)"

section \<open>Reading results in the orchestrator (backend/api/orchestrateQA/index.js, getTestResults)\<close>

text \<open>\<open>if (xs) xs.forEach(s => evidenceUrls.push(s.url))\<close>: \<open>None\<close> when it throws
  (a truthy value that is not an array, or a \<open>null\<close> element); an element without a
  \<open>url\<close> contributes \<open>undefined\<close>.\<close>

definition push_urls :: "json option \<Rightarrow> json option list option" where
  "push_urls field =
     (case field of
        None \<Rightarrow> Some []
      | Some v \<Rightarrow>
        if \<not> truthy v then Some []
        else (case v of
                JArr xs \<Rightarrow> if JNull \<in> set xs then None else Some (map (\<lambda>s. jget s ''url'') xs)
              | _ \<Rightarrow> None))"

record results_view =
  results_status :: json
  results_summary :: json
  evidenceUrls :: "json option list"
  results_executedAt :: json

definition results_not_found :: results_view where
  "results_not_found =
     \<lparr>results_status = JStr ''not_found'', results_summary = JNull, evidenceUrls = [],
      results_executedAt = JNull\<rparr>"

text \<open>\<open>getTestResults\<close>: every failure inside the try block, the download's included,
  ends in the \<open>not_found\<close> result.\<close>

definition getTestResults :: "runtime \<Rightarrow> world \<Rightarrow> string \<Rightarrow> results_view" where
  "getTestResults rt w tid =
     (let resultsContainerName = env_or rt ''RESULTS_CONTAINER_NAME'' ''test-results'' in
      case downloadBlobAsJson rt w resultsContainerName (tid @ ''/summary.json'') of
        Inl msg \<Rightarrow> results_not_found
      | Inr summ \<Rightarrow>
        if summ = JNull then results_not_found
        else
          (case (push_urls (jget summ ''screenshots''), push_urls (jget summ ''logs''),
                 push_urls (jget summ ''reports'')) of
             (Some ss, Some ls, Some rs) \<Rightarrow>
               \<lparr>results_status = or_else (jget summ ''status'') (JStr ''unknown''),
                results_summary = or_else (jget summ ''summary'') JNull,
                evidenceUrls = ss @ ls @ rs @
                  (case jget summ ''summaryBlobUrl'' of
                     None \<Rightarrow> []
                   | Some u \<Rightarrow> if truthy u then [Some u] else []),
                results_executedAt = or_else (jget summ ''executedAt'') JNull\<rparr>
           | _ \<Rightarrow> results_not_found))"

section \<open>The sandbox (the docker helper, last part of backend/api/generateTests/promptTemplates.js)\<close>

text \<open>
  An error thrown by \<open>fs\<close> or by \<open>exec\<close> carries a \<open>code\<close>: the exit code of the
  command, the name of a system error, or \<open>null\<close> when the process was ended by a signal,
  which is what the wall-clock timeout of \<open>exec\<close> does (\<open>killed\<close> is then set).
\<close>

datatype js_code = CodeNum int | CodeStr string | CodeNull

record js_error =
  err_code :: js_code
  err_killed :: bool
  err_message :: string
  err_stdout :: "string option"
  err_stderr :: "string option"

text \<open>\<open>error.code || 1\<close>.\<close>

definition code_or_1 :: "js_code \<Rightarrow> js_code" where
  "code_or_1 c =
     (case c of
        CodeNum n \<Rightarrow> if n = 0 then CodeNum 1 else CodeNum n
      | CodeStr s \<Rightarrow> if s = [] then CodeNum 1 else CodeStr s
      | CodeNull \<Rightarrow> CodeNum 1)"

text \<open>What is found at a path of the results directory: a file with its text (\<open>None\<close>
  when reading it throws), a directory with its entries, or a directory that cannot be
  read.\<close>

datatype fsnode =
    File string "string option"
  | Dir string "fsnode list"
  | NoDir string

fun node_name :: "fsnode \<Rightarrow> string" where
  "node_name (File nm c) = nm"
| "node_name (Dir nm es) = nm"
| "node_name (NoDir nm) = nm"

text \<open>What the host and the container do in one run: the outcome of \<open>mkdtemp\<close>,
  \<open>writeFile\<close>, \<open>mkdir\<close> and of the \<open>docker run\<close> command (\<open>Inr\<close> is its stdout and
  stderr), and what is in the results directory afterwards. The image, the file name and
  the environment variables of the options only shape the command line.\<close>

record sandbox =
  mkdtemp :: "string + string"
  writeFile :: "js_error option"
  mkdir :: "js_error option"
  exec :: "js_error + (string \<times> string)"
  results :: fsnode

record exec_result =
  exitCode :: js_code
  stdout :: string
  stderr :: string
  resultsPath :: string
  resultFiles :: "string list"

definition exec_failed :: "string \<Rightarrow> js_error \<Rightarrow> exec_result" where
  "exec_failed rp e =
     \<lparr>exitCode = code_or_1 (err_code e),
      stdout = str_or (err_stdout e) [],
      stderr = str_or (err_stderr e) (err_message e),
      resultsPath = rp,
      resultFiles = []\<rparr>"

text \<open>\<open>runTestsWithMount\<close>: it throws only before its try block (no script content,
  or \<open>mkdtemp\<close> fails); every error inside the try block, the timeout of \<open>exec\<close>
  included, is turned into a result with the exit code \<open>error.code || 1\<close>.\<close>

definition runTestsWithMount :: "sandbox \<Rightarrow> string \<Rightarrow> string + exec_result" where
  "runTestsWithMount sb testScriptContent =
     (if testScriptContent = [] then Inl ''Test script content is required''
      else case mkdtemp sb of
        Inl msg \<Rightarrow> Inl msg
      | Inr tempDir \<Rightarrow>
        let rp = tempDir @ ''/results'' in
        Inr (case writeFile sb of
               Some e \<Rightarrow> exec_failed rp e
             | None \<Rightarrow>
               (case mkdir sb of
                  Some e \<Rightarrow> exec_failed rp e
                | None \<Rightarrow>
                  (case exec sb of
                     Inl e \<Rightarrow> exec_failed rp e
                   | Inr (out, err) \<Rightarrow>
                     \<lparr>exitCode = CodeNum 0, stdout = out, stderr = err, resultsPath = rp,
                      resultFiles = (case results sb of Dir nm es \<Rightarrow> map node_name es | _ \<Rightarrow> [])\<rparr>))))"

section \<open>The Test Executor (backend/api/runTests/index.js)\<close>

text \<open>\<open>path.extname\<close> of a directory entry's name (which has no separator): from the
  last dot on, and empty when there is no dot, when the last dot is the first character,
  or for the name of two dots.\<close>

definition extname :: "string \<Rightarrow> string" where
  "extname nm =
     (if CHR ''.'' \<notin> set nm then []
      else let suf = rev (takeWhile (\<lambda>c. c \<noteq> CHR ''.'') (rev nm))
           in if length nm = Suc (length suf) \<or> nm = ''..'' then [] else CHR ''.'' # suf)"

record harvested =
  file_name :: string
  file_path :: string
  file_content :: string

datatype report_content = JsonContent json | HtmlContent string

record report =
  report_name :: string
  report_path :: string
  report_content :: report_content

definition report_type :: "report \<Rightarrow> string" where
  "report_type r = (case report_content r of JsonContent v \<Rightarrow> ''json'' | HtmlContent s \<Rightarrow> ''html'')"

record stats =
  s_total :: json
  s_passed :: json
  s_failed :: json
  s_skipped :: json
  s_duration :: json

record collected =
  c_screenshots :: "harvested list"
  c_logs :: "harvested list"
  c_reports :: "report list"
  c_status :: string
  c_summary :: "stats option"

definition empty_results :: collected where
  "empty_results =
     \<lparr>c_screenshots = [], c_logs = [], c_reports = [], c_status = ''unknown'', c_summary = None\<rparr>"

text \<open>\<open>x > 0\<close> on a property that may be \<open>undefined\<close>: \<open>undefined\<close> compares false,
  \<open>null\<close> and the empty string count as 0, \<open>true\<close> as 1, and any other string, array
  or object is converted by the engine.\<close>

definition js_gt0 :: "runtime \<Rightarrow> json option \<Rightarrow> bool" where
  "js_gt0 rt x =
     (case x of
        None \<Rightarrow> False
      | Some JNull \<Rightarrow> False
      | Some (JBool b) \<Rightarrow> b
      | Some (JNum n) \<Rightarrow> 0 < n
      | Some (JStr s) \<Rightarrow>
          if s = [] then False
          else (case to_number rt (JStr s) of None \<Rightarrow> False | Some n \<Rightarrow> 0 < n)
      | Some v \<Rightarrow> (case to_number rt v of None \<Rightarrow> False | Some n \<Rightarrow> 0 < n))"

text \<open>The status and the summary that a JSON report with truthy \<open>stats\<close> sets.\<close>

definition stats_status :: "runtime \<Rightarrow> json \<Rightarrow> string" where
  "stats_status rt st =
     (if js_gt0 rt (jget st ''failed'') then ''failed''
      else if js_gt0 rt (jget st ''passed'') then ''passed'' else ''unknown'')"

definition stats_summary :: "json \<Rightarrow> stats" where
  "stats_summary st =
     \<lparr>s_total = or_else (jget st ''total'') (JNum 0),
      s_passed = or_else (jget st ''passed'') (JNum 0),
      s_failed = or_else (jget st ''failed'') (JNum 0),
      s_skipped = or_else (jget st ''skipped'') (JNum 0),
      s_duration = or_else (jget st ''duration'') (JNum 0)\<rparr>"

text \<open>The body of the loop for an entry that is not a directory. The flag says that the
  body threw (a read failed, \<open>JSON.parse\<close> failed, or the report is \<open>null\<close>); the
  results are what was collected up to there.\<close>

definition collect_file ::
  "runtime \<Rightarrow> string \<Rightarrow> string \<Rightarrow> string option \<Rightarrow> collected \<Rightarrow> collected \<times> bool" where
  "collect_file rt dir nm content acc =
     (let ext = toLowerCase (extname nm);
          fileName = toLowerCase nm;
          filePath = dir @ ''/'' @ nm
      in
      if ext = ''.png'' \<or> ext = ''.jpg'' \<or> ext = ''.jpeg'' \<or> str_includes fileName ''screenshot'' then
        (case content of
           None \<Rightarrow> (acc, True)
         | Some c \<Rightarrow>
           (acc\<lparr>c_screenshots := c_screenshots acc @
                   [\<lparr>file_name = nm, file_path = filePath, file_content = c\<rparr>]\<rparr>, False))
      else if ext = ''.log'' \<or> ext = ''.txt'' \<or> str_includes fileName ''log'' then
        (case content of
           None \<Rightarrow> (acc, True)
         | Some c \<Rightarrow>
           (acc\<lparr>c_logs := c_logs acc @
                   [\<lparr>file_name = nm, file_path = filePath, file_content = c\<rparr>]\<rparr>, False))
      else if ext = ''.json'' then
        (case content of
           None \<Rightarrow> (acc, True)
         | Some c \<Rightarrow>
           (case json_parse rt c of
              Inl msg \<Rightarrow> (acc, True)
            | Inr v \<Rightarrow>
              let acc1 = acc\<lparr>c_reports := c_reports acc @
                              [\<lparr>report_name = nm, report_path = filePath,
                                report_content = JsonContent v\<rparr>]\<rparr>
              in if v = JNull then (acc1, True)
                 else (case jget v ''stats'' of
                         None \<Rightarrow> (acc1, False)
                       | Some st \<Rightarrow>
                         if truthy st
                         then (acc1\<lparr>c_status := stats_status rt st,
                                    c_summary := Some (stats_summary st)\<rparr>, False)
                         else (acc1, False))))
      else if ext = ''.html'' then
        (case content of
           None \<Rightarrow> (acc, True)
         | Some c \<Rightarrow>
           (acc\<lparr>c_reports := c_reports acc @
                   [\<lparr>report_name = nm, report_path = filePath,
                     report_content = HtmlContent c\<rparr>]\<rparr>, False))
      else (acc, False))"

text \<open>Of the results of a subdirectory only the three collections are kept.\<close>

definition merge_sub :: "collected \<Rightarrow> collected \<Rightarrow> collected" where
  "merge_sub acc sub =
     acc\<lparr>c_screenshots := c_screenshots acc @ c_screenshots sub,
         c_logs := c_logs acc @ c_logs sub,
         c_reports := c_reports acc @ c_reports sub\<rparr>"

text \<open>\<open>collectTestResults dir node\<close> is the call on the path \<open>dir\<close> at which \<open>node\<close>
  is found. \<open>readdir\<close> throws on what is not a readable directory; the catch block around
  the loop returns what has been collected when the body throws.\<close>

fun collectTestResults :: "runtime \<Rightarrow> string \<Rightarrow> fsnode \<Rightarrow> collected"
  and collect_entries :: "runtime \<Rightarrow> string \<Rightarrow> fsnode list \<Rightarrow> collected \<Rightarrow> collected" where
  "collectTestResults rt dir (Dir nm es) = collect_entries rt dir es empty_results"
| "collectTestResults rt dir (File nm c) = empty_results"
| "collectTestResults rt dir (NoDir nm) = empty_results"
| "collect_entries rt dir [] acc = acc"
| "collect_entries rt dir (Dir nm es # rest) acc =
     collect_entries rt dir rest
       (merge_sub acc (collectTestResults rt (dir @ ''/'' @ nm) (Dir nm es)))"
| "collect_entries rt dir (NoDir nm # rest) acc =
     collect_entries rt dir rest
       (merge_sub acc (collectTestResults rt (dir @ ''/'' @ nm) (NoDir nm)))"
| "collect_entries rt dir (File nm content # rest) acc =
     (case collect_file rt dir nm content acc of
        (acc', threw) \<Rightarrow> if threw then acc' else collect_entries rt dir rest acc')"

text \<open>The final status of the entry point: the exit code decides when the collected
  status is \<open>unknown\<close>.\<close>

definition finalStatus :: "string \<Rightarrow> js_code \<Rightarrow> string" where
  "finalStatus collected_status code =
     (if collected_status = ''unknown''
      then (if code = CodeNum 0 then ''passed'' else ''failed'')
      else collected_status)"

text \<open>\<open>updateJobStatus\<close>: best effort; a failure to enqueue is logged and dropped.\<close>

definition updateJobStatus :: "runtime \<Rightarrow> world \<Rightarrow> string \<Rightarrow> json \<Rightarrow> world" where
  "updateJobStatus rt w queueName statusData =
     (if queueName = [] then w else snd (enqueueMessage rt w queueName statusData))"

record uploaded =
  up_name :: string
  up_url :: string
  up_blobName :: string
  up_type :: "string option"

record upload_results =
  u_screenshots :: "uploaded list"
  u_logs :: "uploaded list"
  u_reports :: "uploaded list"
  u_summaryBlobUrl :: string

text \<open>The three upload loops of \<open>uploadTestResults\<close>. Each stops at the first upload
  that throws.\<close>

fun upload_screenshots ::
  "runtime \<Rightarrow> string \<Rightarrow> string \<Rightarrow> harvested list \<Rightarrow> world \<Rightarrow> uploaded list
     \<Rightarrow> (string + uploaded list) \<times> world" where
  "upload_screenshots rt tid c [] w acc = (Inr acc, w)"
| "upload_screenshots rt tid c (s # rest) w acc =
     (let blobName = tid @ ''/screenshots/'' @ file_name s in
      case uploadBlob rt w c blobName (file_content s) ''image/png'' of
        (Inl msg, w') \<Rightarrow> (Inl msg, w')
      | (Inr u, w') \<Rightarrow>
          upload_screenshots rt tid c rest w'
            (acc @ [\<lparr>up_name = file_name s, up_url = u, up_blobName = blobName, up_type = None\<rparr>]))"

fun upload_logs ::
  "runtime \<Rightarrow> string \<Rightarrow> string \<Rightarrow> harvested list \<Rightarrow> world \<Rightarrow> uploaded list
     \<Rightarrow> (string + uploaded list) \<times> world" where
  "upload_logs rt tid c [] w acc = (Inr acc, w)"
| "upload_logs rt tid c (l # rest) w acc =
     (let blobName = tid @ ''/logs/'' @ file_name l in
      case uploadBlob rt w c blobName (file_content l) ''text/plain'' of
        (Inl msg, w') \<Rightarrow> (Inl msg, w')
      | (Inr u, w') \<Rightarrow>
          upload_logs rt tid c rest w'
            (acc @ [\<lparr>up_name = file_name l, up_url = u, up_blobName = blobName, up_type = None\<rparr>]))"

definition report_bytes :: "runtime \<Rightarrow> report \<Rightarrow> string" where
  "report_bytes rt r =
     (case report_content r of JsonContent v \<Rightarrow> json_stringify rt v | HtmlContent s \<Rightarrow> s)"

fun upload_reports ::
  "runtime \<Rightarrow> string \<Rightarrow> string \<Rightarrow> report list \<Rightarrow> world \<Rightarrow> uploaded list
     \<Rightarrow> (string + uploaded list) \<times> world" where
  "upload_reports rt tid c [] w acc = (Inr acc, w)"
| "upload_reports rt tid c (r # rest) w acc =
     (let blobName = tid @ ''/reports/'' @ report_name r;
          ctype = (if report_type r = ''json'' then ''application/json'' else ''text/html'') in
      case uploadBlob rt w c blobName (report_bytes rt r) ctype of
        (Inl msg, w') \<Rightarrow> (Inl msg, w')
      | (Inr u, w') \<Rightarrow>
          upload_reports rt tid c rest w'
            (acc @ [\<lparr>up_name = report_name r, up_url = u, up_blobName = blobName,
                     up_type = Some (report_type r)\<rparr>]))"

text \<open>The summary document \<open>{testId}/summary.json\<close>.\<close>

definition stats_json :: "stats option \<Rightarrow> json" where
  "stats_json s =
     (case s of
        None \<Rightarrow> JNull
      | Some x \<Rightarrow> JObj [(''total'', s_total x), (''passed'', s_passed x), (''failed'', s_failed x),
                         (''skipped'', s_skipped x), (''duration'', s_duration x)])"

definition name_url :: "uploaded \<Rightarrow> json" where
  "name_url u = JObj [(''name'', JStr (up_name u)), (''url'', JStr (up_url u))]"

definition name_url_type :: "uploaded \<Rightarrow> json" where
  "name_url_type u =
     JObj [(''name'', JStr (up_name u)), (''url'', JStr (up_url u)),
           (''type'', (case up_type u of None \<Rightarrow> JNull | Some t \<Rightarrow> JStr t))]"

definition summary_document ::
  "runtime \<Rightarrow> string \<Rightarrow> collected \<Rightarrow> uploaded list \<Rightarrow> uploaded list \<Rightarrow> uploaded list \<Rightarrow> json" where
  "summary_document rt tid testResults shots ls reps =
     JObj [(''testId'', JStr tid),
           (''status'', JStr (c_status testResults)),
           (''summary'', stats_json (c_summary testResults)),
           (''screenshots'', JArr (map name_url shots)),
           (''logs'', JArr (map name_url ls)),
           (''reports'', JArr (map name_url_type reps)),
           (''executedAt'', JStr (now rt))]"

definition uploadTestResults ::
  "runtime \<Rightarrow> world \<Rightarrow> string \<Rightarrow> collected \<Rightarrow> string \<Rightarrow> (string + upload_results) \<times> world" where
  "uploadTestResults rt w tid testResults c =
     (let failed = (\<lambda>msg. ''Failed to upload test results: '' @ msg) in
      case upload_screenshots rt tid c (c_screenshots testResults) w [] of
        (Inl msg, w1) \<Rightarrow> (Inl (failed msg), w1)
      | (Inr shots, w1) \<Rightarrow>
        (case upload_logs rt tid c (c_logs testResults) w1 [] of
           (Inl msg, w2) \<Rightarrow> (Inl (failed msg), w2)
         | (Inr ls, w2) \<Rightarrow>
           (case upload_reports rt tid c (c_reports testResults) w2 [] of
              (Inl msg, w3) \<Rightarrow> (Inl (failed msg), w3)
            | (Inr reps, w3) \<Rightarrow>
              (case uploadBlob rt w3 c (tid @ ''/summary.json'')
                      (json_stringify rt (summary_document rt tid testResults shots ls reps))
                      ''application/json'' of
                 (Inl msg, w4) \<Rightarrow> (Inl (failed msg), w4)
               | (Inr u, w4) \<Rightarrow>
                   (Inr \<lparr>u_screenshots = shots, u_logs = ls, u_reports = reps,
                         u_summaryBlobUrl = u\<rparr>, w4)))))"

text \<open>A string property of a queue message; the envelope's identifiers and names are
  strings.\<close>

definition str_field :: "json \<Rightarrow> string \<Rightarrow> string option" where
  "str_field v k = (case jget v k of Some (JStr s) \<Rightarrow> Some s | _ \<Rightarrow> None)"

record run_response =
  r_testId :: string
  r_workItemId :: json
  r_status :: string
  r_summary :: "stats option"
  r_exitCode :: js_code
  r_screenshots :: "uploaded list"
  r_logs :: "uploaded list"
  r_reports :: "uploaded list"
  r_summaryBlobUrl :: string
  r_executedAt :: string

text \<open>
  The catch block of the entry point reads \<open>statusQueueName\<close>, which is declared with
  \<open>const\<close> inside the try block and is not in scope in the catch block: evaluating it
  throws a \<open>ReferenceError\<close>, so the catch block never reaches its return statement and
  the entry point rejects.
\<close>

definition catch_block :: "string \<Rightarrow> string + run_response" where
  "catch_block msg = Inl ''statusQueueName is not defined''"

definition status_message :: "string \<Rightarrow> json \<Rightarrow> string \<Rightarrow> (string \<times> json) list \<Rightarrow> string \<Rightarrow> json" where
  "status_message tid wid st extra ts =
     JObj ([(''testId'', JStr tid), (''workItemId'', wid), (''status'', JStr st)] @ extra
           @ [(''timestamp'', JStr ts)])"

text \<open>The queue-triggered entry point. \<open>Inl\<close> is the error it rejects with, \<open>Inr\<close> the
  response it returns.\<close>

definition RunTests ::
  "runtime \<Rightarrow> sandbox \<Rightarrow> world \<Rightarrow> json \<Rightarrow> (string + run_response) \<times> world" where
  "RunTests rt sb w queueItem =
     (if \<not> truthy queueItem then (catch_block ''Queue item is required'', w)
      else
        let tid = str_or (str_field queueItem ''testId'')
                    (str_or (str_field queueItem ''id'') (uuid rt (clock w) 0));
            wid = or_else (jget queueItem ''workItemId'') JNull;
            scriptBlobUrl = str_or (str_field queueItem ''scriptBlobUrl'') [];
            scriptBlobName = str_or (str_field queueItem ''scriptBlobName'') [];
            scriptContainerName = str_or (str_field queueItem ''containerName'') ''test-scripts'';
            resultsContainerName = env_or rt ''RESULTS_CONTAINER_NAME'' ''test-results'';
            statusQueueName = env_or rt ''JOB_STATUS_QUEUE_NAME'' [];
            w1 = updateJobStatus rt w statusQueueName (status_message tid wid ''started'' [] (now rt))
        in
        if scriptBlobName = [] \<and> scriptBlobUrl = []
        then (catch_block ''Either scriptBlobName or scriptBlobUrl is required'', w1)
        else if scriptBlobName = []
        then (catch_block ''scriptBlobName is required when scriptBlobUrl is provided'', w1)
        else
          (case downloadBlobAsString rt w1 scriptContainerName scriptBlobName of
             Inl msg \<Rightarrow> (catch_block msg, w1)
           | Inr testScriptContent \<Rightarrow>
             (case runTestsWithMount sb testScriptContent of
                Inl msg \<Rightarrow> (catch_block msg, w1)
              | Inr executionResult \<Rightarrow>
                let testResults = collectTestResults rt (resultsPath executionResult) (results sb);
                    final = finalStatus (c_status testResults) (exitCode executionResult)
                in (case uploadTestResults rt w1 tid testResults resultsContainerName of
                      (Inl msg, w2) \<Rightarrow> (catch_block msg, w2)
                    | (Inr uploadResults, w2) \<Rightarrow>
                        (Inr \<lparr>r_testId = tid, r_workItemId = wid, r_status = final,
                              r_summary = c_summary testResults,
                              r_exitCode = exitCode executionResult,
                              r_screenshots = u_screenshots uploadResults,
                              r_logs = u_logs uploadResults,
                              r_reports = u_reports uploadResults,
                              r_summaryBlobUrl = u_summaryBlobUrl uploadResults,
                              r_executedAt = now rt\<rparr>,
                         updateJobStatus rt w2 statusQueueName
                           (status_message tid wid final
                              [(''summary'', stats_json (c_summary testResults)),
                               (''summaryBlobUrl'', JStr (u_summaryBlobUrl uploadResults))]
                              (now rt)))))))"

section \<open>The Scenario/Script Generator (the generate tests function, second part of backend/api/generateTests/promptTemplates.js)\<close>

text \<open>\<open>String.prototype.trim\<close> on ASCII white space.\<close>

definition is_space :: "char \<Rightarrow> bool" where
  "is_space c = (c \<in> {CHR '' '', CHR 0x09, CHR 0x0A, CHR 0x0B, CHR 0x0C, CHR 0x0D})"

definition trim :: "string \<Rightarrow> string" where
  "trim s = rev (dropWhile is_space (rev (dropWhile is_space s)))"


text \<open>One chat completion: the request is recorded in the trace, whatever its outcome.\<close>

definition complete :: "runtime \<Rightarrow> world \<Rightarrow> prompt \<Rightarrow> (string + string) \<times> world" where
  "complete rt w p = (chat rt (clock w) p, log_event (Prompted p) w)"




record generation =
  gen_testId :: string
  gen_workItemId :: string
  gen_scenarios :: "json list"
  scriptBlobUrl :: string
  scriptBlobName :: string
  gen_containerName :: string
  generatedAt :: string







section \<open>Test generation in the orchestrator (the test generator, unnamed/part_004)\<close>

definition generator_getOpenAIClient :: "runtime \<Rightarrow> string + unit" where
  "generator_getOpenAIClient rt =
     (if str_or (env rt ''AZURE_OPENAI_API_KEY'') (str_or (env rt ''OPENAI_API_KEY'') []) = []
      then Inl ''OpenAI API key is required''
      else Inr ())"

definition generateExploratoryScenarios ::
  "runtime \<Rightarrow> world \<Rightarrow> json \<Rightarrow> (string + json list) \<times> world" where
  "generateExploratoryScenarios rt w workItem =
     (let failed = (\<lambda>msg. ''Failed to generate exploratory scenarios: '' @ msg) in
      case generator_getOpenAIClient rt of
        Inl msg \<Rightarrow> (Inl msg, w)
      | Inr _ \<Rightarrow>
        (case complete rt w (GeneratorScenariosPrompt workItem) of
           (Inl msg, w1) \<Rightarrow> (Inl (failed msg), w1)
         | (Inr responseContent, w1) \<Rightarrow>
           (case (case json_parse rt responseContent of
                    Inr v \<Rightarrow> Inr v
                  | Inl parseError \<Rightarrow>
                    (case array_match rt responseContent of
                       Some a \<Rightarrow>
                         (case json_parse rt a of
                            Inr v \<Rightarrow> Inr (JObj [(''scenarios'', v)])
                          | Inl msg \<Rightarrow> Inl msg)
                     | None \<Rightarrow> Inl (''Failed to parse scenarios: '' @ parseError))) of
              Inl msg \<Rightarrow> (Inl (failed msg), w1)
            | Inr result \<Rightarrow>
              if result = JNull then (Inl (failed ''Cannot read properties of null''), w1)
              else (Inr (case jget result ''scenarios'' of
                           Some (JArr xs) \<Rightarrow> xs
                         | _ \<Rightarrow> (case result of JArr xs \<Rightarrow> xs | _ \<Rightarrow> [])), w1))))"

definition generatePlaywrightTestScript ::
  "runtime \<Rightarrow> world \<Rightarrow> json \<Rightarrow> json list \<Rightarrow> (string + string) \<times> world" where
  "generatePlaywrightTestScript rt w workItem scs =
     (case generator_getOpenAIClient rt of
        Inl msg \<Rightarrow> (Inl msg, w)
      | Inr _ \<Rightarrow>
        let criticalScenario = (case scs of [] \<Rightarrow> JStr ''Test the main functionality'' | s # rest \<Rightarrow> s) in
        (case complete rt w (GeneratorScriptPrompt workItem criticalScenario) of
           (Inl msg, w1) \<Rightarrow> (Inl (''Failed to generate Playwright test script: '' @ msg), w1)
         | (Inr content, w1) \<Rightarrow>
           let t0 = trim content;
               t1 = (case code_block rt t0 of Some cb \<Rightarrow> trim cb | None \<Rightarrow> t0);
               t2 = (if \<not> str_includes t1 ''require'' \<and> \<not> str_includes t1 ''import''
                     then ''const { test, expect } = require('@playwright/test');'' @ [CHR 0x0A, CHR 0x0A] @ t1
                     else t1)
           in (Inr t2, w1)))"

section \<open>The Pipeline Orchestrator: one work item (backend/api/orchestrateQA/index.js, processWorkItem)\<close>

text \<open>\<open>notifyTeams\<close> inside its own try block: the post to the webhook succeeds or its
  failure is logged; nothing is thrown to the caller. The flag says that it succeeded.\<close>

definition notifyTeams :: "runtime \<Rightarrow> world \<Rightarrow> string \<Rightarrow> bool \<times> world" where
  "notifyTeams rt w webhook =
     (case fault rt (clock w) (WebhookPost webhook) of
        Some msg \<Rightarrow> (False, log_event (Failed (WebhookPost webhook) msg) w)
      | None \<Rightarrow> (True, log_event (Notified webhook) w))"

record work_result =
  wr_workItemId :: "json option"
  wr_title :: "json option"
  exploratoryScenarios :: "json list"
  automatedTestScripts :: "string list"
  wr_status :: string
  wr_error :: "string option"
  teamsNotifications :: "string list"
  bugCreated :: bool

text \<open>A property of an object literal: \<open>JSON.stringify\<close> leaves out the properties whose
  value is \<open>undefined\<close>.\<close>

definition opt_field :: "string \<Rightarrow> json option \<Rightarrow> (string \<times> json) list" where
  "opt_field k v = (case v of None \<Rightarrow> [] | Some x \<Rightarrow> [(k, x)])"

definition execution_envelope :: "string \<Rightarrow> json \<Rightarrow> string \<Rightarrow> string \<Rightarrow> json" where
  "execution_envelope tid workItem blobName containerName =
     JObj ([(''testId'', JStr tid)] @ opt_field ''workItemId'' (jget workItem ''workItemId'')
           @ [(''scriptBlobName'', JStr blobName), (''containerName'', JStr containerName)]
           @ opt_field ''title'' (jget workItem ''title'') @ opt_field ''url'' (jget workItem ''url''))"

text \<open>\<open>processWorkItem\<close>: scenarios, script, upload of the script, enqueue of the
  execution job, notification. The first step that throws ends the run in the catch block,
  which sets the status \<open>error\<close> on the result built so far.\<close>

definition processWorkItem :: "runtime \<Rightarrow> world \<Rightarrow> json \<Rightarrow> work_result \<times> world" where
  "processWorkItem rt w workItem =
     (let tid = uuid rt (clock w) 0;
          result = \<lparr>wr_workItemId = jget workItem ''workItemId'', wr_title = jget workItem ''title'',
                    exploratoryScenarios = [], automatedTestScripts = [], wr_status = ''unknown'',
                    wr_error = None, teamsNotifications = [], bugCreated = False\<rparr>;
          caught = (\<lambda>r msg. r\<lparr>wr_status := ''error'', wr_error := Some msg\<rparr>)
      in
      case generateExploratoryScenarios rt w workItem of
        (Inl msg, w1) \<Rightarrow> (caught result msg, w1)
      | (Inr scs, w1) \<Rightarrow>
        let result1 = result\<lparr>exploratoryScenarios := scs\<rparr> in
        (case generatePlaywrightTestScript rt w1 workItem scs of
           (Inl msg, w2) \<Rightarrow> (caught result1 msg, w2)
         | (Inr testScript, w2) \<Rightarrow>
           let blobName = tid @ ''/test.spec.js'';
               containerName = env_or rt ''STORAGE_CONTAINER_NAME'' ''test-scripts''
           in (case uploadBlob rt w2 containerName blobName testScript ''application/javascript'' of
                 (Inl msg, w3) \<Rightarrow> (caught result1 msg, w3)
               | (Inr u, w3) \<Rightarrow>
                 let result2 = result1\<lparr>automatedTestScripts := [u]\<rparr>;
                     executionQueueName = env_or rt ''TEST_EXECUTION_QUEUE_NAME'' ''test-execution-queue''
                 in (case enqueueMessage rt w3 executionQueueName
                            (execution_envelope tid workItem blobName containerName) of
                       (Inl msg, w4) \<Rightarrow> (caught result2 msg, w4)
                     | (Inr _, w4) \<Rightarrow>
                       let teamsWebhookUrl = str_or (env rt ''TEAMS_WEBHOOK_URL'') [] in
                       if teamsWebhookUrl = [] then (result2, w4)
                       else (case notifyTeams rt w4 teamsWebhookUrl of
                               (True, w5) \<Rightarrow> (result2\<lparr>teamsNotifications := [teamsWebhookUrl]\<rparr>, w5)
                             | (False, w5) \<Rightarrow> (result2, w5))))))"

section \<open>Notions of the specification\<close>

text \<open>The status that the exit code alone gives.\<close>

definition exit_status :: "js_code \<Rightarrow> string" where
  "exit_status code = (if code = CodeNum 0 then ''passed'' else ''failed'')"

text \<open>The status derivation in the words of the specification: with a structured summary,
  \<open>failed\<close> when its failed count is positive, else \<open>passed\<close> when its passed count is
  positive, else \<open>unknown\<close>; without one, the exit code decides.\<close>

definition spec_status :: "runtime \<Rightarrow> stats option \<Rightarrow> js_code \<Rightarrow> string" where
  "spec_status rt summ code =
     (case summ of
        Some s \<Rightarrow> if js_gt0 rt (Some (s_failed s)) then ''failed''
                  else if js_gt0 rt (Some (s_passed s)) then ''passed'' else ''unknown''
      | None \<Rightarrow> exit_status code)"

text \<open>The collected status is the one that the collected summary gives.\<close>

definition status_agrees :: "runtime \<Rightarrow> collected \<Rightarrow> bool" where
  "status_agrees rt r =
     (c_status r =
        (case c_summary r of
           None \<Rightarrow> ''unknown''
         | Some s \<Rightarrow> if js_gt0 rt (Some (s_failed s)) then ''failed''
                     else if js_gt0 rt (Some (s_passed s)) then ''passed'' else ''unknown''))"

text \<open>The events of one acknowledged upload, and the test for the write of the summary
  document of a run.\<close>

definition upload_events :: "string \<Rightarrow> string \<Rightarrow> string \<Rightarrow> event list" where
  "upload_events c b d = [ContainerEnsured c, Uploaded c b d]"

definition is_summary_upload :: "string \<Rightarrow> string \<Rightarrow> event \<Rightarrow> bool" where
  "is_summary_upload c tid e =
     (case e of Uploaded c' b d \<Rightarrow> c' = c \<and> b = tid @ ''/summary.json'' | _ \<Rightarrow> False)"



definition is_enqueue :: "event \<Rightarrow> bool" where
  "is_enqueue e = (case e of Enqueued q m \<Rightarrow> True | _ \<Rightarrow> False)"

text \<open>No orphaned envelope: every queued message that names a script names one that is in
  the store, in the container the Executor will read it from.\<close>

definition no_orphans :: "world \<Rightarrow> bool" where
  "no_orphans w =
     (\<forall>qm \<in> set (queue w). \<forall>b. str_field (snd qm) ''scriptBlobName'' = Some b \<longrightarrow>
        (str_or (str_field (snd qm) ''containerName'') ''test-scripts'', b) \<in> fst ` set (blobs w))"

section \<open>Example runs\<close>

text \<open>
  Concrete runtimes, stores, results directories and queue messages on which the theorems
  below are instantiated. The texts given to \<open>json_parse\<close> abbreviate JSON documents;
  the value each one parses to is written out next to it.
\<close>

definition rt_ok :: runtime where
  "rt_ok =
     \<lparr>env = (\<lambda>x. if x = ''AZURE_STORAGE_CONNECTION_STRING'' then Some ''UseDevelopmentStorage=true'' else None),
      fault = (\<lambda>n op. None),
      json_parse = (\<lambda>s.
        if s = ''{status:passed,screenshots:[],reports:null}''
        then Inr (JObj [(''status'', JStr ''passed''), (''screenshots'', JArr []), (''reports'', JNull)])
        else if s = ''{status:passed}'' then Inr (JObj [(''status'', JStr ''passed'')])
        else Inl ''Unexpected token''),
      json_stringify = (\<lambda>v. ''{}''),
      to_number = (\<lambda>v. None),
      md_json_block = (\<lambda>s. None),
      array_match = (\<lambda>s. None),
      code_block = (\<lambda>s. None),
      uuid = (\<lambda>n k. if k = 0 then ''run-1'' else ''id-2''),
      chat = (\<lambda>n p. Inr ''test(ok)''),
      account_url = ''https://acct.blob.core.windows.net'',
      now = ''2024-01-01T09:00:00.000Z''\<rparr>"

definition world_partial :: world where
  "world_partial =
     \<lparr>containers = [''test-results''],
      blobs = [((''test-results'', ''r1/logs/run.log''),
                \<lparr>data = ''boom'', contentType = ''text/plain'', lastModified = ''2024-01-01T08:59:00.000Z''\<rparr>),
               ((''test-results'', ''r1/reports/results.json''),
                \<lparr>data = ''{}'', contentType = ''application/json'',
                 lastModified = ''2024-01-01T08:59:10.000Z''\<rparr>)],
      queue = [],
      trace = []\<rparr>"

definition world_done :: world where
  "world_done =
     \<lparr>containers = [''test-results''],
      blobs = [((''test-results'', ''r1/summary.json''),
                \<lparr>data = ''{status:passed}'', contentType = ''application/json'',
                 lastModified = ''2024-01-01T08:59:30.000Z''\<rparr>),
               ((''test-results'', ''r1/logs/run.log''),
                \<lparr>data = ''boom'', contentType = ''text/plain'', lastModified = ''2024-01-01T08:59:00.000Z''\<rparr>)],
      queue = [],
      trace = []\<rparr>"

definition rt_list_down :: runtime where
  "rt_list_down =
     rt_ok\<lparr>fault := (\<lambda>n op. case op of ListBlobsFlat c pre \<Rightarrow> Some ''ServerBusy'' | _ \<Rightarrow> None)\<rparr>"

definition rt_reads_down :: runtime where
  "rt_reads_down =
     rt_ok\<lparr>fault := (\<lambda>n op. case op of BlobDownload c b \<Rightarrow> Some ''ServerBusy''
                                      | ListBlobsFlat c pre \<Rightarrow> Some ''ServerBusy''
                                      | _ \<Rightarrow> None)\<rparr>"

definition world_curated :: world where
  "world_curated =
     \<lparr>containers = [''test-results''],
      blobs = [((''test-results'', ''r1/summary.json''),
                \<lparr>data = ''{status:passed,screenshots:[],reports:null}'', contentType = ''application/json'',
                 lastModified = ''2024-01-01T08:59:30.000Z''\<rparr>),
               ((''test-results'', ''r1/screenshots/a.png''),
                \<lparr>data = ''PNG'', contentType = ''image/png'', lastModified = ''2024-01-01T08:59:00.000Z''\<rparr>)],
      queue = [],
      trace = []\<rparr>"

definition summary_curated :: json where
  "summary_curated =
     JObj [(''status'', JStr ''passed''), (''screenshots'', JArr []), (''reports'', JNull)]"

definition evidence_listed :: evidence where
  "evidence_listed =
     \<lparr>screenshots = JArr [JObj [(''name'', JStr ''a.png'')]],
      logs = JArr [JObj [(''name'', JStr ''run.log'')]],
      reports = JArr [JObj [(''name'', JStr ''results.json'')]]\<rparr>"

definition results_skipped_only :: fsnode where
  "results_skipped_only = Dir ''results'' [File ''results.json'' (Some ''{stats:{skipped:1}}'')]"

definition rt_reports :: runtime where
  "rt_reports =
     rt_ok\<lparr>json_parse := (\<lambda>s.
        if s = ''{stats:{skipped:1}}'' then Inr (JObj [(''stats'', JObj [(''skipped'', JNum 1)])])
        else if s = ''{stats:{passed:2,failed:1}}''
        then Inr (JObj [(''stats'', JObj [(''passed'', JNum 2), (''failed'', JNum 1)])])
        else Inl ''Unexpected token'')\<rparr>"

definition world_empty :: world where
  "world_empty = \<lparr>containers = [], blobs = [], queue = [], trace = []\<rparr>"

definition harvest_small :: collected where
  "harvest_small =
     \<lparr>c_screenshots = [\<lparr>file_name = ''a.png'', file_path = ''/tmp/t/results/a.png'', file_content = ''PNG''\<rparr>],
      c_logs = [\<lparr>file_name = ''run.log'', file_path = ''/tmp/t/results/run.log'', file_content = ''boom''\<rparr>],
      c_reports = [\<lparr>report_name = ''index.html'', report_path = ''/tmp/t/results/index.html'',
                    report_content = HtmlContent ''<html/>''\<rparr>],
      c_status = ''unknown'', c_summary = None\<rparr>"

definition sb_timeout :: sandbox where
  "sb_timeout =
     \<lparr>mkdtemp = Inr ''/tmp/playwright-test-abc'',
      writeFile = None,
      mkdir = None,
      exec = Inl \<lparr>err_code = CodeNull, err_killed = True, err_message = ''Command failed: docker run'',
                  err_stdout = Some [], err_stderr = Some []\<rparr>,
      results = Dir ''results'' []\<rparr>"

definition world_script :: world where
  "world_script =
     \<lparr>containers = [''test-scripts''],
      blobs = [((''test-scripts'', ''r1/test.spec.js''),
                \<lparr>data = ''test(ok)'', contentType = ''application/javascript'',
                 lastModified = ''2024-01-01T08:00:00.000Z''\<rparr>)],
      queue = [],
      trace = []\<rparr>"

definition envelope_r1 :: json where
  "envelope_r1 = JObj [(''testId'', JStr ''r1''), (''scriptBlobName'', JStr ''r1/test.spec.js'')]"

definition rt_gen :: runtime where
  "rt_gen =
     rt_ok\<lparr>env := (\<lambda>x. if x = ''AZURE_STORAGE_CONNECTION_STRING'' then Some ''UseDevelopmentStorage=true''
                         else if x = ''OPENAI_API_KEY'' then Some ''sk-test'' else None),
           json_parse := (\<lambda>s. if s = ''[]'' then Inr (JArr []) else Inl ''Unexpected token''),
           chat := (\<lambda>n p. case p of
                      CombinedPrompt wi \<Rightarrow> Inr ''Here are your tests''
                    | TestScriptPrompt wi \<Rightarrow> Inr ''test(ok)''
                    | ExploratoryScenariosPrompt wi \<Rightarrow> Inr ''[]''
                    | GeneratorScenariosPrompt wi \<Rightarrow> Inr ''[]''
                    | GeneratorScriptPrompt wi s \<Rightarrow> Inr ''import test(ok)'')\<rparr>"

definition work_item_42 :: json where
  "work_item_42 = JObj [(''workItemId'', JStr ''42''), (''title'', JStr ''Login form'')]"


section \<open>Facts about strings\<close>

lemma startsWith_append: "startsWith (p @ ys) p"
  by (simp add: startsWith_def)

lemma startsWith_shorter: "startsWith s (p @ q) \<Longrightarrow> startsWith s p"
proof -
  assume "startsWith s (p @ q)"
  then have h: "take (length p + length q) s = p @ q" by (simp add: startsWith_def)
  have "take (length p) s = take (length p) (take (length p + length q) s)" by simp
  also have "\<dots> = p" by (simp only: h) simp
  finally show ?thesis by (simp add: startsWith_def)
qed

lemma str_includes_append: "str_includes (xs @ p @ ys) p"
proof (induction xs)
  case Nil
  show ?case
  proof (cases "p @ ys")
    case Nil then show ?thesis by simp
  next
    case (Cons c cs)
    then show ?thesis using startsWith_append [of p ys] by simp
  qed
next
  case (Cons x xs)
  then show ?case by simp
qed

lemma replace_first_prefix: "replace_first (p @ n) p [] = n"
proof (cases "p @ n")
  case Nil then show ?thesis by simp
next
  case (Cons c cs)
  have "replace_first (c # cs) p [] = drop (length p) (c # cs)"
    using startsWith_append [of p n] Cons by simp
  also have "\<dots> = drop (length p) (p @ n)" by (simp only: Cons)
  also have "\<dots> = n" by simp
  finally show ?thesis by (simp only: Cons)
qed

lemma missing_includes:
  "str_includes (download_failed b c (blob_missing b c)) ''does not exist''"
proof -
  have "download_failed b c (blob_missing b c) =
        (''Failed to download blob '' @ dq @ b @ dq @ '' from container '' @ dq @ c @ dq @ '': '' @ ''Blob '' @ dq @ b @ dq @ '' '')
        @ ''does not exist'' @ ('' in container '' @ dq @ c @ dq)"
    by (simp add: download_failed_def blob_missing_def)
  then show ?thesis using str_includes_append by metis
qed

section \<open>The Status Aggregator: absent and present summaries\<close>

lemma getTestSummary_absent:
  assumes "getBlobServiceClient rt = Inr ()" and "c \<noteq> []"
    and "fault rt (clock w) (BlobExists c (tid @ ''/summary.json'')) = None"
    and "map_of (blobs w) (c, tid @ ''/summary.json'') = None"
  shows "getTestSummary rt w tid c = Inr JNull"
  using assms missing_includes [of "tid @ ''/summary.json''" c]
  by (simp add: getTestSummary_def downloadBlobAsJson_def downloadBlobAsString_def getContainerClient_def)

lemma results_container_nonempty: "env_or rt ''RESULTS_CONTAINER_NAME'' ''test-results'' \<noteq> []"
  by (simp add: env_or_def str_or_def split: option.splits)

lemma listBlobsByPrefix_none:
  assumes "\<forall>kb \<in> set (blobs w). \<not> (fst (fst kb) = c \<and> startsWith (snd (fst kb)) pre)"
  shows "listBlobsByPrefix rt w c pre = []"
proof -
  have "filter (\<lambda>(k, b). fst k = c \<and> startsWith (snd k) pre) (blobs w) = []"
    using assms by (auto simp: filter_empty_conv)
  then show ?thesis
    by (simp add: listBlobsByPrefix_def listBlobs_def Let_def split: sum.splits option.splits)
qed

lemma listBlobsByPrefix_mem:
  assumes "getBlobServiceClient rt = Inr ()" and "c \<noteq> []"
    and "fault rt (clock w) (ListBlobsFlat c pre) = None"
    and "c \<in> set (containers w)"
    and "((c, pre @ n), b) \<in> set (blobs w)"
  shows "\<lparr>name = n, url = blob_url rt c (pre @ n), entry_size = int (length (data b)),
          modified = lastModified b\<rparr> \<in> set (listBlobsByPrefix rt w c pre)"
proof -
  let ?sel = "filter (\<lambda>(k, b). fst k = c \<and> startsWith (snd k) pre) (blobs w)"
  let ?item = "\<lambda>(k, b). \<lparr>item_name = snd k, contentLength = int (length (data b)), item_lastModified = lastModified b\<rparr>"
  let ?out = "\<lambda>b. \<lparr>name = replace_first (item_name b) pre [], url = blob_url rt c (item_name b),
                     entry_size = contentLength b, modified = item_lastModified b\<rparr>"
  have eq: "listBlobsByPrefix rt w c pre = map ?out (map ?item ?sel)"
    using assms(1-4) by (simp add: listBlobsByPrefix_def listBlobs_def getContainerClient_def Let_def)
  have "((c, pre @ n), b) \<in> set ?sel"
    using assms(5) startsWith_append [of pre n] by simp
  then have "?out (?item ((c, pre @ n), b)) \<in> set (map ?out (map ?item ?sel))"
    by (metis (no_types, lifting) image_eqI list.set_map)
  then show ?thesis by (simp add: eq replace_first_prefix)
qed

lemma listBlobs_answers:
  assumes "listBlobs rt w c pre = Inr items"
  shows "fault rt (clock w) (ListBlobsFlat c pre) = None" and "c \<in> set (containers w)"
  using assms
  by (auto simp: listBlobs_def Let_def split: sum.splits option.splits if_splits)

lemma listBlobsByPrefix_failed:
  "listBlobs rt w c pre = Inl msg \<Longrightarrow> listBlobsByPrefix rt w c pre = []"
  by (simp add: listBlobsByPrefix_def)

text \<open>
  Claim C6, as stated, fails: evidence that is stored is dropped when its listing throws.
  Here no summary is stored, a log and a report are, every listing throws, and the
  endpoint answers 404 with three empty collections.
\<close>

theorem JobStatus_summary_absent_counterexample:
  "map_of (blobs world_partial) (''test-results'', ''r1/summary.json'') = None
   \<and> map_of (blobs world_partial) (''test-results'', ''r1/logs/run.log'') \<noteq> None
   \<and> map_of (blobs world_partial) (''test-results'', ''r1/reports/results.json'') \<noteq> None
   \<and> JobStatus rt_list_down world_partial (Some ''r1'') None =
       \<lparr>http_status = 404,
        http_body = View \<lparr>testId = JStr ''r1'', workItemId = JNull, status = JStr ''not_found'',
          summary = JNull,
          view_evidence = \<lparr>screenshots = JArr [], logs = JArr [], reports = JArr []\<rparr>,
          executedAt = JNull, retrievedAt = ''2024-01-01T09:00:00.000Z'', summaryBlobUrl = JNull\<rparr>\<rparr>"
proof -
  have s: "getTestSummary rt_list_down world_partial ''r1'' ''test-results'' = Inr JNull"
    by (rule getTestSummary_absent)
       (simp_all add: getBlobServiceClient_def str_or_def rt_list_down_def rt_ok_def world_partial_def)
  have l: "listBlobsByPrefix rt_list_down world_partial ''test-results'' pre = []" for pre
    by (simp add: listBlobsByPrefix_def listBlobs_def getContainerClient_def getBlobServiceClient_def
        str_or_def rt_list_down_def rt_ok_def Let_def)
  show ?thesis
    using s l
    by (simp add: JobStatus_def buildResponse_def getTestEvidence_def env_or_def str_or_def
        rt_list_down_def rt_ok_def world_partial_def Let_def)
qed

text \<open>
  Claim C6, amended. When the summary document of a run is absent (the store answers the
  existence check and has no blob \<open>{testId}/summary.json\<close>), the status endpoint answers
  404 with status \<open>not_found\<close> and with the evidence that the three listings return. If
  the container holds nothing under \<open>{testId}/\<close> the three collections are empty. In
  each collection whose listing answers, every blob stored under its prefix is listed with
  its name, its URL, its size and its time of last modification (a report also with its
  type); a collection whose listing throws is returned empty.
\<close>

theorem JobStatus_summary_absent:
  assumes tid: "str_or q (str_or p []) = tid" "tid \<noteq> []"
    and c: "c = env_or rt ''RESULTS_CONTAINER_NAME'' ''test-results''"
    and conn: "getBlobServiceClient rt = Inr ()"
    and nofault: "fault rt (clock w) (BlobExists c (tid @ ''/summary.json'')) = None"
    and absent: "map_of (blobs w) (c, tid @ ''/summary.json'') = None"
  shows "JobStatus rt w q p =
           \<lparr>http_status = 404,
            http_body = View \<lparr>testId = JStr tid, workItemId = JNull, status = JStr ''not_found'',
                              summary = JNull, view_evidence = getTestEvidence rt w tid c,
                              executedAt = JNull, retrievedAt = now rt, summaryBlobUrl = JNull\<rparr>\<rparr>
       \<and> ((\<forall>kb \<in> set (blobs w). \<not> (fst (fst kb) = c \<and> startsWith (snd (fst kb)) (tid @ ''/'')))
            \<longrightarrow> getTestEvidence rt w tid c = \<lparr>screenshots = JArr [], logs = JArr [], reports = JArr []\<rparr>)
       \<and> (\<forall>n b. (\<exists>items. listBlobs rt w c (tid @ ''/screenshots/'') = Inr items)
             \<and> ((c, tid @ ''/screenshots/'' @ n), b) \<in> set (blobs w)
            \<longrightarrow> (\<exists>xs. screenshots (getTestEvidence rt w tid c) = JArr xs
                  \<and> JObj [(''name'', JStr n),
                        (''url'', JStr (blob_url rt c (tid @ ''/screenshots/'' @ n))),
                        (''size'', JNum (int (length (data b)))),
                        (''lastModified'', JStr (lastModified b))] \<in> set xs))
       \<and> (\<forall>n b. (\<exists>items. listBlobs rt w c (tid @ ''/logs/'') = Inr items)
             \<and> ((c, tid @ ''/logs/'' @ n), b) \<in> set (blobs w)
            \<longrightarrow> (\<exists>xs. logs (getTestEvidence rt w tid c) = JArr xs
                  \<and> JObj [(''name'', JStr n),
                        (''url'', JStr (blob_url rt c (tid @ ''/logs/'' @ n))),
                        (''size'', JNum (int (length (data b)))),
                        (''lastModified'', JStr (lastModified b))] \<in> set xs))
       \<and> (\<forall>n b. (\<exists>items. listBlobs rt w c (tid @ ''/reports/'') = Inr items)
             \<and> ((c, tid @ ''/reports/'' @ n), b) \<in> set (blobs w)
            \<longrightarrow> (\<exists>xs. reports (getTestEvidence rt w tid c) = JArr xs
                  \<and> JObj [(''name'', JStr n),
                        (''url'', JStr (blob_url rt c (tid @ ''/reports/'' @ n))),
                        (''type'', JStr (if endsWith (toLowerCase n) ''.json'' then ''json'' else ''html'')),
                        (''size'', JNum (int (length (data b)))),
                        (''lastModified'', JStr (lastModified b))] \<in> set xs))
       \<and> ((\<exists>msg. listBlobs rt w c (tid @ ''/screenshots/'') = Inl msg)
            \<longrightarrow> screenshots (getTestEvidence rt w tid c) = JArr [])
       \<and> ((\<exists>msg. listBlobs rt w c (tid @ ''/logs/'') = Inl msg)
            \<longrightarrow> logs (getTestEvidence rt w tid c) = JArr [])
       \<and> ((\<exists>msg. listBlobs rt w c (tid @ ''/reports/'') = Inl msg)
            \<longrightarrow> reports (getTestEvidence rt w tid c) = JArr [])"
proof -
  have cne: "c \<noteq> []" using c results_container_nonempty by simp
  have "getTestSummary rt w tid c = Inr JNull"
    using getTestSummary_absent [OF conn cne nofault absent] .
  then have r: "JobStatus rt w q p =
           \<lparr>http_status = 404,
            http_body = View \<lparr>testId = JStr tid, workItemId = JNull, status = JStr ''not_found'',
                              summary = JNull, view_evidence = getTestEvidence rt w tid c,
                              executedAt = JNull, retrievedAt = now rt, summaryBlobUrl = JNull\<rparr>\<rparr>"
    using tid c by (simp add: JobStatus_def buildResponse_def Let_def)
  have e: "((\<forall>kb \<in> set (blobs w). \<not> (fst (fst kb) = c \<and> startsWith (snd (fst kb)) (tid @ ''/'')))
            \<longrightarrow> getTestEvidence rt w tid c = \<lparr>screenshots = JArr [], logs = JArr [], reports = JArr []\<rparr>)"
  proof
    assume none: "\<forall>kb \<in> set (blobs w). \<not> (fst (fst kb) = c \<and> startsWith (snd (fst kb)) (tid @ ''/''))"
    have sub: "listBlobsByPrefix rt w c ((tid @ ''/'') @ d) = []" for d
      using none startsWith_shorter [of _ "tid @ ''/''" d]
      by (intro listBlobsByPrefix_none) blast
    show "getTestEvidence rt w tid c = \<lparr>screenshots = JArr [], logs = JArr [], reports = JArr []\<rparr>"
      using sub [of "''screenshots/''"] sub [of "''logs/''"] sub [of "''reports/''"]
      by (simp add: getTestEvidence_def)
  qed
  have mem: "\<lparr>name = n, url = blob_url rt c (pre @ n), entry_size = int (length (data b)),
              modified = lastModified b\<rparr> \<in> set (listBlobsByPrefix rt w c pre)"
    if "\<exists>items. listBlobs rt w c pre = Inr items" "((c, pre @ n), b) \<in> set (blobs w)" for pre n b
  proof -
    from that(1) obtain items where i: "listBlobs rt w c pre = Inr items" by blast
    show ?thesis
      by (rule listBlobsByPrefix_mem [OF conn cne listBlobs_answers(1) [OF i]
            listBlobs_answers(2) [OF i] that(2)])
  qed
  have l_screenshots: "(\<forall>n b. (\<exists>items. listBlobs rt w c (tid @ ''/screenshots/'') = Inr items)
             \<and> ((c, tid @ ''/screenshots/'' @ n), b) \<in> set (blobs w)
            \<longrightarrow> (\<exists>xs. screenshots (getTestEvidence rt w tid c) = JArr xs
                  \<and> JObj [(''name'', JStr n),
                        (''url'', JStr (blob_url rt c (tid @ ''/screenshots/'' @ n))),
                        (''size'', JNum (int (length (data b)))),
                        (''lastModified'', JStr (lastModified b))] \<in> set xs))"
  proof (intro allI impI)
    fix n b
    assume h: "(\<exists>items. listBlobs rt w c (tid @ ''/screenshots/'') = Inr items)
             \<and> ((c, tid @ ''/screenshots/'' @ n), b) \<in> set (blobs w)"
    have "\<lparr>name = n, url = blob_url rt c ((tid @ ''/screenshots/'') @ n), entry_size = int (length (data b)),
              modified = lastModified b\<rparr> \<in> set (listBlobsByPrefix rt w c (tid @ ''/screenshots/''))"
      using h by (intro mem) simp_all
    then have "evidence_entry \<lparr>name = n, url = blob_url rt c ((tid @ ''/screenshots/'') @ n),
                 entry_size = int (length (data b)), modified = lastModified b\<rparr>
               \<in> set (map evidence_entry (listBlobsByPrefix rt w c (tid @ ''/screenshots/'')))"
      by simp
    then show "\<exists>xs. screenshots (getTestEvidence rt w tid c) = JArr xs
                  \<and> JObj [(''name'', JStr n),
                        (''url'', JStr (blob_url rt c (tid @ ''/screenshots/'' @ n))),
                        (''size'', JNum (int (length (data b)))),
                        (''lastModified'', JStr (lastModified b))] \<in> set xs"
      by (simp add: getTestEvidence_def evidence_entry_def)
  qed
  have l_logs: "(\<forall>n b. (\<exists>items. listBlobs rt w c (tid @ ''/logs/'') = Inr items)
             \<and> ((c, tid @ ''/logs/'' @ n), b) \<in> set (blobs w)
            \<longrightarrow> (\<exists>xs. logs (getTestEvidence rt w tid c) = JArr xs
                  \<and> JObj [(''name'', JStr n),
                        (''url'', JStr (blob_url rt c (tid @ ''/logs/'' @ n))),
                        (''size'', JNum (int (length (data b)))),
                        (''lastModified'', JStr (lastModified b))] \<in> set xs))"
  proof (intro allI impI)
    fix n b
    assume h: "(\<exists>items. listBlobs rt w c (tid @ ''/logs/'') = Inr items)
             \<and> ((c, tid @ ''/logs/'' @ n), b) \<in> set (blobs w)"
    have "\<lparr>name = n, url = blob_url rt c ((tid @ ''/logs/'') @ n), entry_size = int (length (data b)),
              modified = lastModified b\<rparr> \<in> set (listBlobsByPrefix rt w c (tid @ ''/logs/''))"
      using h by (intro mem) simp_all
    then have "evidence_entry \<lparr>name = n, url = blob_url rt c ((tid @ ''/logs/'') @ n),
                 entry_size = int (length (data b)), modified = lastModified b\<rparr>
               \<in> set (map evidence_entry (listBlobsByPrefix rt w c (tid @ ''/logs/'')))"
      by simp
    then show "\<exists>xs. logs (getTestEvidence rt w tid c) = JArr xs
                  \<and> JObj [(''name'', JStr n),
                        (''url'', JStr (blob_url rt c (tid @ ''/logs/'' @ n))),
                        (''size'', JNum (int (length (data b)))),
                        (''lastModified'', JStr (lastModified b))] \<in> set xs"
      by (simp add: getTestEvidence_def evidence_entry_def)
  qed
  have l_reports: "(\<forall>n b. (\<exists>items. listBlobs rt w c (tid @ ''/reports/'') = Inr items)
             \<and> ((c, tid @ ''/reports/'' @ n), b) \<in> set (blobs w)
            \<longrightarrow> (\<exists>xs. reports (getTestEvidence rt w tid c) = JArr xs
                  \<and> JObj [(''name'', JStr n),
                        (''url'', JStr (blob_url rt c (tid @ ''/reports/'' @ n))),
                        (''type'', JStr (if endsWith (toLowerCase n) ''.json'' then ''json'' else ''html'')),
                        (''size'', JNum (int (length (data b)))),
                        (''lastModified'', JStr (lastModified b))] \<in> set xs))"
  proof (intro allI impI)
    fix n b
    assume h: "(\<exists>items. listBlobs rt w c (tid @ ''/reports/'') = Inr items)
             \<and> ((c, tid @ ''/reports/'' @ n), b) \<in> set (blobs w)"
    have "\<lparr>name = n, url = blob_url rt c ((tid @ ''/reports/'') @ n), entry_size = int (length (data b)),
              modified = lastModified b\<rparr> \<in> set (listBlobsByPrefix rt w c (tid @ ''/reports/''))"
      using h by (intro mem) simp_all
    then have "report_entry \<lparr>name = n, url = blob_url rt c ((tid @ ''/reports/'') @ n),
                 entry_size = int (length (data b)), modified = lastModified b\<rparr>
               \<in> set (map report_entry (listBlobsByPrefix rt w c (tid @ ''/reports/'')))"
      by simp
    then show "\<exists>xs. reports (getTestEvidence rt w tid c) = JArr xs
                  \<and> JObj [(''name'', JStr n),
                        (''url'', JStr (blob_url rt c (tid @ ''/reports/'' @ n))),
                        (''type'', JStr (if endsWith (toLowerCase n) ''.json'' then ''json'' else ''html'')),
                        (''size'', JNum (int (length (data b)))),
                        (''lastModified'', JStr (lastModified b))] \<in> set xs"
      by (simp add: getTestEvidence_def report_entry_def)
  qed
  have f_screenshots: "((\<exists>msg. listBlobs rt w c (tid @ ''/screenshots/'') = Inl msg)
            \<longrightarrow> screenshots (getTestEvidence rt w tid c) = JArr [])"
    using listBlobsByPrefix_failed [of rt w c "tid @ ''/screenshots/''"]
    by (auto simp: getTestEvidence_def)
  have f_logs: "((\<exists>msg. listBlobs rt w c (tid @ ''/logs/'') = Inl msg)
            \<longrightarrow> logs (getTestEvidence rt w tid c) = JArr [])"
    using listBlobsByPrefix_failed [of rt w c "tid @ ''/logs/''"]
    by (auto simp: getTestEvidence_def)
  have f_reports: "((\<exists>msg. listBlobs rt w c (tid @ ''/reports/'') = Inl msg)
            \<longrightarrow> reports (getTestEvidence rt w tid c) = JArr [])"
    using listBlobsByPrefix_failed [of rt w c "tid @ ''/reports/''"]
    by (auto simp: getTestEvidence_def)
  show ?thesis
    by (intro conjI r e l_screenshots l_logs l_reports f_screenshots f_logs f_reports)
qed

theorem JobStatus_summary_absent_witness:
  "map_of (blobs world_partial) (''test-results'', ''r1/summary.json'') = None
   \<and> JobStatus rt_ok world_partial (Some ''r1'') None =
       \<lparr>http_status = 404,
        http_body = View \<lparr>testId = JStr ''r1'', workItemId = JNull, status = JStr ''not_found'',
          summary = JNull,
          view_evidence = getTestEvidence rt_ok world_partial ''r1'' ''test-results'',
          executedAt = JNull, retrievedAt = ''2024-01-01T09:00:00.000Z'', summaryBlobUrl = JNull\<rparr>\<rparr>
   \<and> (\<exists>xs. logs (getTestEvidence rt_ok world_partial ''r1'' ''test-results'') = JArr xs
          \<and> JObj [(''name'', JStr ''run.log''),
                   (''url'', JStr ''https://acct.blob.core.windows.net/test-results/r1/logs/run.log''),
                   (''size'', JNum 4), (''lastModified'', JStr ''2024-01-01T08:59:00.000Z'')] \<in> set xs)
   \<and> (\<exists>xs. reports (getTestEvidence rt_ok world_partial ''r1'' ''test-results'') = JArr xs
          \<and> JObj [(''name'', JStr ''results.json''),
                   (''url'', JStr ''https://acct.blob.core.windows.net/test-results/r1/reports/results.json''),
                   (''type'', JStr ''json''),
                   (''size'', JNum 2), (''lastModified'', JStr ''2024-01-01T08:59:10.000Z'')] \<in> set xs)"
proof -
  have h1: "str_or (Some ''r1'') (str_or None []) = ''r1''" by (simp add: str_or_def)
  have h2: "''r1'' \<noteq> []" by simp
  have h3: "''test-results'' = env_or rt_ok ''RESULTS_CONTAINER_NAME'' ''test-results''"
    by (simp add: env_or_def str_or_def rt_ok_def)
  have h4: "getBlobServiceClient rt_ok = Inr ()"
    by (simp add: getBlobServiceClient_def str_or_def rt_ok_def)
  have h5: "fault rt_ok (clock world_partial) (BlobExists ''test-results'' (''r1'' @ ''/summary.json'')) = None"
    by (simp add: rt_ok_def)
  have h6: "map_of (blobs world_partial) (''test-results'', ''r1'' @ ''/summary.json'') = None"
    by (simp add: world_partial_def)
  note T = JobStatus_summary_absent [OF h1 h2 h3 h4 h5 h6]
  have ans: "\<exists>items. listBlobs rt_ok world_partial ''test-results'' pre = Inr items" for pre
    by (simp add: listBlobs_def getContainerClient_def getBlobServiceClient_def str_or_def
        rt_ok_def world_partial_def Let_def)
  let ?log = "\<lparr>data = ''boom'', contentType = ''text/plain'', lastModified = ''2024-01-01T08:59:00.000Z''\<rparr>"
  let ?rep = "\<lparr>data = ''{}'', contentType = ''application/json'',
                 lastModified = ''2024-01-01T08:59:10.000Z''\<rparr>"
  have m1: "((''test-results'', ''r1'' @ ''/logs/'' @ ''run.log''), ?log) \<in> set (blobs world_partial)"
    by (simp add: world_partial_def)
  have m2: "((''test-results'', ''r1'' @ ''/reports/'' @ ''results.json''), ?rep) \<in> set (blobs world_partial)"
    by (simp add: world_partial_def)
  from T have a: "JobStatus rt_ok world_partial (Some ''r1'') None =
       \<lparr>http_status = 404,
        http_body = View \<lparr>testId = JStr ''r1'', workItemId = JNull, status = JStr ''not_found'',
          summary = JNull,
          view_evidence = getTestEvidence rt_ok world_partial ''r1'' ''test-results'',
          executedAt = JNull, retrievedAt = now rt_ok, summaryBlobUrl = JNull\<rparr>\<rparr>"
    by (rule conjunct1)
  from T ans [of "''r1'' @ ''/logs/''"] m1
  have b: "\<exists>xs. logs (getTestEvidence rt_ok world_partial ''r1'' ''test-results'') = JArr xs
          \<and> JObj [(''name'', JStr ''run.log''),
                   (''url'', JStr (blob_url rt_ok ''test-results'' (''r1'' @ ''/logs/'' @ ''run.log''))),
                   (''size'', JNum (int (length (data ?log)))),
                   (''lastModified'', JStr (lastModified ?log))] \<in> set xs"
    by blast
  from T ans [of "''r1'' @ ''/reports/''"] m2
  have d: "\<exists>xs. reports (getTestEvidence rt_ok world_partial ''r1'' ''test-results'') = JArr xs
          \<and> JObj [(''name'', JStr ''results.json''),
                   (''url'', JStr (blob_url rt_ok ''test-results'' (''r1'' @ ''/reports/'' @ ''results.json''))),
                   (''type'', JStr (if endsWith (toLowerCase ''results.json'') ''.json'' then ''json'' else ''html'')),
                   (''size'', JNum (int (length (data ?rep)))),
                   (''lastModified'', JStr (lastModified ?rep))] \<in> set xs"
    by blast
  have t: "endsWith (toLowerCase ''results.json'') ''.json''"
    by (simp add: endsWith_def toLowerCase_def lower_char_def)
  show ?thesis
    using a b d h6 t by (simp add: blob_url_def rt_ok_def)
qed

lemma getTestSummary_present:
  assumes "getBlobServiceClient rt = Inr ()" and "c \<noteq> []"
    and "fault rt (clock w) (BlobExists c (tid @ ''/summary.json'')) = None"
    and "fault rt (clock w) (BlobDownload c (tid @ ''/summary.json'')) = None"
    and "map_of (blobs w) (c, tid @ ''/summary.json'') = Some b"
    and "json_parse rt (data b) = Inr summ"
  shows "getTestSummary rt w tid c = Inr summ"
  using assms
  by (simp add: getTestSummary_def downloadBlobAsJson_def downloadBlobAsString_def getContainerClient_def)

text \<open>
  Claim C7. When the summary document of a run is present (it is stored, the store answers
  the existence check and the download, and it parses to a truthy value), the status
  endpoint answers with a view whose evidence collections are the arrays embedded in the
  summary, whatever the listings under the run's prefixes found, and whose status and
  summary fields are the summary's own.
\<close>

theorem JobStatus_summary_present:
  assumes tid: "str_or q (str_or p []) = tid" "tid \<noteq> []"
    and c: "c = env_or rt ''RESULTS_CONTAINER_NAME'' ''test-results''"
    and conn: "getBlobServiceClient rt = Inr ()"
    and nofault: "fault rt (clock w) (BlobExists c (tid @ ''/summary.json'')) = None"
                 "fault rt (clock w) (BlobDownload c (tid @ ''/summary.json'')) = None"
    and present: "map_of (blobs w) (c, tid @ ''/summary.json'') = Some b"
    and parsed: "json_parse rt (data b) = Inr summ" "truthy summ"
  shows "\<exists>v. JobStatus rt w q p =
               \<lparr>http_status = (if status v = JStr ''not_found'' then 404
                               else if status v = JStr ''error'' then 500 else 200),
                http_body = View v\<rparr>
           \<and> (\<forall>xs. jget summ ''screenshots'' = Some (JArr xs) \<longrightarrow> screenshots (view_evidence v) = JArr xs)
           \<and> (\<forall>xs. jget summ ''logs'' = Some (JArr xs) \<longrightarrow> logs (view_evidence v) = JArr xs)
           \<and> (\<forall>xs. jget summ ''reports'' = Some (JArr xs) \<longrightarrow> reports (view_evidence v) = JArr xs)
           \<and> (\<forall>s. jget summ ''status'' = Some (JStr s) \<and> s \<noteq> [] \<longrightarrow> status v = JStr s)
           \<and> (\<forall>x. jget summ ''summary'' = Some x \<and> truthy x \<longrightarrow> summary v = x)"
proof -
  have cne: "c \<noteq> []" using c results_container_nonempty by simp
  have s: "getTestSummary rt w tid c = Inr summ"
    using getTestSummary_present [OF conn cne nofault present parsed(1)] .
  let ?v = "buildResponse rt summ (getTestEvidence rt w tid c) tid"
  have "JobStatus rt w q p =
               \<lparr>http_status = (if status ?v = JStr ''not_found'' then 404
                               else if status ?v = JStr ''error'' then 500 else 200),
                http_body = View ?v\<rparr>"
    using tid c s by (simp add: JobStatus_def Let_def)
  moreover have "\<forall>xs. jget summ ''screenshots'' = Some (JArr xs) \<longrightarrow> screenshots (view_evidence ?v) = JArr xs"
    using parsed(2) by (simp add: buildResponse_def or_else_def)
  moreover have "\<forall>xs. jget summ ''logs'' = Some (JArr xs) \<longrightarrow> logs (view_evidence ?v) = JArr xs"
    using parsed(2) by (simp add: buildResponse_def or_else_def)
  moreover have "\<forall>xs. jget summ ''reports'' = Some (JArr xs) \<longrightarrow> reports (view_evidence ?v) = JArr xs"
    using parsed(2) by (simp add: buildResponse_def or_else_def)
  moreover have "\<forall>s. jget summ ''status'' = Some (JStr s) \<and> s \<noteq> [] \<longrightarrow> status ?v = JStr s"
    using parsed(2) by (simp add: buildResponse_def or_else_def)
  moreover have "\<forall>x. jget summ ''summary'' = Some x \<and> truthy x \<longrightarrow> summary ?v = x"
    using parsed(2) by (simp add: buildResponse_def or_else_def)
  ultimately show ?thesis by blast
qed

theorem JobStatus_summary_present_witness:
  "\<exists>v. JobStatus rt_ok world_curated (Some ''r1'') None = \<lparr>http_status = 200, http_body = View v\<rparr>
      \<and> status v = JStr ''passed'' \<and> screenshots (view_evidence v) = JArr []"
proof -
  have h1: "str_or (Some ''r1'') (str_or None []) = ''r1''" by (simp add: str_or_def)
  have h2: "''r1'' \<noteq> []" by simp
  have h3: "''test-results'' = env_or rt_ok ''RESULTS_CONTAINER_NAME'' ''test-results''"
    by (simp add: env_or_def str_or_def rt_ok_def)
  have h4: "getBlobServiceClient rt_ok = Inr ()"
    by (simp add: getBlobServiceClient_def str_or_def rt_ok_def)
  have h5: "fault rt_ok (clock world_curated) (BlobExists ''test-results'' (''r1'' @ ''/summary.json'')) = None"
    by (simp add: rt_ok_def)
  have h6: "fault rt_ok (clock world_curated) (BlobDownload ''test-results'' (''r1'' @ ''/summary.json'')) = None"
    by (simp add: rt_ok_def)
  have h7: "map_of (blobs world_curated) (''test-results'', ''r1'' @ ''/summary.json'') =
              Some \<lparr>data = ''{status:passed,screenshots:[],reports:null}'', contentType = ''application/json'',
                 lastModified = ''2024-01-01T08:59:30.000Z''\<rparr>"
    by (simp add: world_curated_def)
  have h8: "json_parse rt_ok (data \<lparr>data = ''{status:passed,screenshots:[],reports:null}'',
                 contentType = ''application/json'', lastModified = ''2024-01-01T08:59:30.000Z''\<rparr>) = Inr summary_curated"
    by (simp add: rt_ok_def summary_curated_def)
  have h9: "truthy summary_curated" by (simp add: summary_curated_def)
  from JobStatus_summary_present [OF h1 h2 h3 h4 h5 h6 h7 h8 h9]
  obtain v where v: "JobStatus rt_ok world_curated (Some ''r1'') None =
               \<lparr>http_status = (if status v = JStr ''not_found'' then 404
                               else if status v = JStr ''error'' then 500 else 200),
                http_body = View v\<rparr>"
      "\<forall>xs. jget summary_curated ''screenshots'' = Some (JArr xs) \<longrightarrow> screenshots (view_evidence v) = JArr xs"
      "\<forall>s. jget summary_curated ''status'' = Some (JStr s) \<and> s \<noteq> [] \<longrightarrow> status v = JStr s"
    by blast
  have "jget summary_curated ''screenshots'' = Some (JArr [])"
    by (simp add: summary_curated_def jget_def)
  with v(2) have a: "screenshots (view_evidence v) = JArr []" by blast
  have "jget summary_curated ''status'' = Some (JStr ''passed'') \<and> ''passed'' \<noteq> []"
    by (simp add: summary_curated_def jget_def)
  with v(3) have b: "status v = JStr ''passed''" by blast
  from v(1) a b show ?thesis by simp
qed

text \<open>
  Claim C10. The precedence is decided for each collection on its own: where the summary
  document has no such field, or has \<open>null\<close> there, the listing of that collection is
  used; where it has an array, the empty one too, the array is used and the listing of
  that collection is not.
\<close>

theorem buildResponse_per_collection:
  assumes "truthy summ"
  shows "(jget summ ''screenshots'' \<in> {None, Some JNull}
            \<longrightarrow> screenshots (view_evidence (buildResponse rt summ ev tid)) = screenshots ev)
       \<and> (\<forall>xs. jget summ ''screenshots'' = Some (JArr xs)
            \<longrightarrow> screenshots (view_evidence (buildResponse rt summ ev tid)) = JArr xs)
       \<and> (jget summ ''logs'' \<in> {None, Some JNull}
            \<longrightarrow> logs (view_evidence (buildResponse rt summ ev tid)) = logs ev)
       \<and> (\<forall>xs. jget summ ''logs'' = Some (JArr xs)
            \<longrightarrow> logs (view_evidence (buildResponse rt summ ev tid)) = JArr xs)
       \<and> (jget summ ''reports'' \<in> {None, Some JNull}
            \<longrightarrow> reports (view_evidence (buildResponse rt summ ev tid)) = reports ev)
       \<and> (\<forall>xs. jget summ ''reports'' = Some (JArr xs)
            \<longrightarrow> reports (view_evidence (buildResponse rt summ ev tid)) = JArr xs)"
  using assms by (auto simp: buildResponse_def or_else_def)

theorem buildResponse_per_collection_witness:
  "truthy summary_curated
   \<and> view_evidence (buildResponse rt_ok summary_curated evidence_listed ''r1'') =
       \<lparr>screenshots = JArr [],
        logs = JArr [JObj [(''name'', JStr ''run.log'')]],
        reports = JArr [JObj [(''name'', JStr ''results.json'')]]\<rparr>"
proof -
  have t: "truthy summary_curated" by (simp add: summary_curated_def)
  have g: "jget summary_curated ''screenshots'' = Some (JArr [])"
      "jget summary_curated ''logs'' \<in> {None, Some JNull}"
      "jget summary_curated ''reports'' \<in> {None, Some JNull}"
    by (simp_all add: summary_curated_def jget_def)
  have "screenshots (view_evidence (buildResponse rt_ok summary_curated evidence_listed ''r1'')) = JArr []"
       "logs (view_evidence (buildResponse rt_ok summary_curated evidence_listed ''r1'')) = logs evidence_listed"
       "reports (view_evidence (buildResponse rt_ok summary_curated evidence_listed ''r1'')) = reports evidence_listed"
    using buildResponse_per_collection [OF t, of rt_ok evidence_listed "''r1''"] g by blast+
  then have "view_evidence (buildResponse rt_ok summary_curated evidence_listed ''r1'') =
       \<lparr>screenshots = JArr [], logs = logs evidence_listed, reports = reports evidence_listed\<rparr>"
    by (cases "view_evidence (buildResponse rt_ok summary_curated evidence_listed ''r1'')") simp
  then show ?thesis using t by (simp add: evidence_listed_def)
qed

text \<open>
  Claim C9, as stated, fails: a failure of the listing is not surfaced. Here the listing of
  the logs throws, a log is stored, and the endpoint answers 200 with no logs.
\<close>

theorem JobStatus_read_failures_counterexample:
  "fault rt_list_down (clock world_done) (ListBlobsFlat ''test-results'' ''r1/logs/'') = Some ''ServerBusy''
   \<and> map_of (blobs world_done) (''test-results'', ''r1/logs/run.log'') \<noteq> None
   \<and> JobStatus rt_list_down world_done (Some ''r1'') None =
       \<lparr>http_status = 200,
        http_body = View \<lparr>testId = JStr ''r1'', workItemId = JNull, status = JStr ''passed'',
          summary = JNull,
          view_evidence = \<lparr>screenshots = JArr [], logs = JArr [], reports = JArr []\<rparr>,
          executedAt = JNull, retrievedAt = ''2024-01-01T09:00:00.000Z'', summaryBlobUrl = JNull\<rparr>\<rparr>"
  by (simp add: JobStatus_def getTestSummary_def downloadBlobAsJson_def downloadBlobAsString_def
      getContainerClient_def getBlobServiceClient_def getTestEvidence_def listBlobsByPrefix_def
      listBlobs_def buildResponse_def env_or_def str_or_def or_else_def jget_def
      rt_list_down_def rt_ok_def world_done_def clock_def Let_def)

text \<open>
  Claim C9, amended. A failure of the summary read whose message does not contain
  \<open>does not exist\<close> is surfaced by the status endpoint as an HTTP 500 error response.
  A failure while listing evidence is not propagated: that collection is listed as empty.
  The orchestrator's \<open>getTestResults\<close> answers \<open>not_found\<close> on every failure of the
  summary read.
\<close>

theorem JobStatus_read_failures:
  assumes tid: "str_or q (str_or p []) = tid" "tid \<noteq> []"
    and c: "c = env_or rt ''RESULTS_CONTAINER_NAME'' ''test-results''"
  shows "(\<forall>msg. downloadBlobAsJson rt w c (tid @ ''/summary.json'') = Inl msg
                \<and> \<not> str_includes msg ''does not exist''
            \<longrightarrow> JobStatus rt w q p =
                  \<lparr>http_status = 500,
                   http_body = ErrorBody ''Internal server error while retrieving test status'' msg\<rparr>)
       \<and> (\<forall>pre msg. listBlobs rt w c pre = Inl msg \<longrightarrow> listBlobsByPrefix rt w c pre = [])
       \<and> (\<forall>msg. downloadBlobAsJson rt w c (tid @ ''/summary.json'') = Inl msg
            \<longrightarrow> getTestResults rt w tid = results_not_found)"
proof (intro conjI allI impI)
  fix msg
  assume "downloadBlobAsJson rt w c (tid @ ''/summary.json'') = Inl msg \<and> \<not> str_includes msg ''does not exist''"
  then have "getTestSummary rt w tid c = Inl msg" by (simp add: getTestSummary_def)
  then show "JobStatus rt w q p =
                  \<lparr>http_status = 500,
                   http_body = ErrorBody ''Internal server error while retrieving test status'' msg\<rparr>"
    using tid c by (simp add: JobStatus_def Let_def)
next
  fix pre msg
  assume "listBlobs rt w c pre = Inl msg"
  then show "listBlobsByPrefix rt w c pre = []" by (simp add: listBlobsByPrefix_def)
next
  fix msg
  assume "downloadBlobAsJson rt w c (tid @ ''/summary.json'') = Inl msg"
  then show "getTestResults rt w tid = results_not_found"
    using c by (simp add: getTestResults_def Let_def)
qed

theorem JobStatus_read_failures_witness:
  "downloadBlobAsJson rt_reads_down world_done ''test-results'' ''r1/summary.json'' =
     Inl (''Failed to download blob '' @ dq @ ''r1/summary.json'' @ dq @ '' from container '' @ dq
          @ ''test-results'' @ dq @ '': ServerBusy'')
   \<and> JobStatus rt_reads_down world_done (Some ''r1'') None =
       \<lparr>http_status = 500,
        http_body = ErrorBody ''Internal server error while retrieving test status''
          (''Failed to download blob '' @ dq @ ''r1/summary.json'' @ dq @ '' from container '' @ dq
           @ ''test-results'' @ dq @ '': ServerBusy'')\<rparr>
   \<and> listBlobsByPrefix rt_reads_down world_done ''test-results'' ''r1/logs/'' = []
   \<and> getTestResults rt_reads_down world_done ''r1'' = results_not_found"
proof -
  let ?msg = "''Failed to download blob '' @ dq @ ''r1/summary.json'' @ dq @ '' from container '' @ dq
          @ ''test-results'' @ dq @ '': ServerBusy''"
  have h1: "str_or (Some ''r1'') (str_or None []) = ''r1''" by (simp add: str_or_def)
  have h2: "''r1'' \<noteq> []" by simp
  have h3: "''test-results'' = env_or rt_reads_down ''RESULTS_CONTAINER_NAME'' ''test-results''"
    by (simp add: env_or_def str_or_def rt_ok_def rt_reads_down_def)
  have d: "downloadBlobAsJson rt_reads_down world_done ''test-results'' (''r1'' @ ''/summary.json'') = Inl ?msg"
    by (simp add: downloadBlobAsJson_def downloadBlobAsString_def getContainerClient_def
        getBlobServiceClient_def str_or_def rt_reads_down_def rt_ok_def world_done_def
        clock_def download_failed_def)
  have n: "\<not> str_includes ?msg ''does not exist''"
    by (simp add: dq_def startsWith_def)
  have l: "listBlobs rt_reads_down world_done ''test-results'' ''r1/logs/'' =
             Inl (''Failed to list blobs in container '' @ dq @ ''test-results'' @ dq @ '': ServerBusy'')"
    by (simp add: listBlobs_def getContainerClient_def getBlobServiceClient_def str_or_def
        rt_reads_down_def rt_ok_def world_done_def clock_def Let_def)
  note T = JobStatus_read_failures [OF h1 h2 h3, of world_done]
  from T d n have a: "JobStatus rt_reads_down world_done (Some ''r1'') None =
       \<lparr>http_status = 500,
        http_body = ErrorBody ''Internal server error while retrieving test status'' ?msg\<rparr>"
    by blast
  from T l have b: "listBlobsByPrefix rt_reads_down world_done ''test-results'' ''r1/logs/'' = []"
    by blast
  from T d have c: "getTestResults rt_reads_down world_done ''r1'' = results_not_found"
    by blast
  from a b c d show ?thesis by simp
qed

section \<open>The Test Executor: status derivation\<close>

lemma js_gt0_or_zero: "js_gt0 rt (Some (or_else x (JNum 0))) = js_gt0 rt x"
proof (cases x)
  case None
  then show ?thesis by (simp add: or_else_def js_gt0_def)
next
  case (Some v)
  then show ?thesis by (cases v) (auto simp: or_else_def js_gt0_def)
qed

lemma status_agrees_stats:
  "status_agrees rt (acc\<lparr>c_status := stats_status rt st, c_summary := Some (stats_summary st)\<rparr>)"
  by (simp add: status_agrees_def stats_status_def stats_summary_def js_gt0_or_zero)

lemma status_agrees_collect_file:
  assumes "status_agrees rt acc"
  shows "status_agrees rt (fst (collect_file rt dir nm content acc))"
proof -
  have keep: "status_agrees rt (acc\<lparr>c_screenshots := xs\<rparr>)"
       "status_agrees rt (acc\<lparr>c_logs := xs\<rparr>)"
       "status_agrees rt (acc\<lparr>c_reports := ys\<rparr>)" for xs ys
    using assms by (simp_all add: status_agrees_def)
  show ?thesis
    using assms keep status_agrees_stats
    by (simp add: collect_file_def Let_def split: option.splits sum.splits)
qed

lemma status_agrees_merge_sub:
  "status_agrees rt acc \<Longrightarrow> status_agrees rt (merge_sub acc sub)"
  by (simp add: status_agrees_def merge_sub_def)

lemma status_agrees_collect:
  "status_agrees rt (collectTestResults rt dir node)"
  "status_agrees rt acc \<Longrightarrow> status_agrees rt (collect_entries rt dir es acc)"
proof (induction rt dir node and rt dir es acc rule: collectTestResults_collect_entries.induct)
  case (1 rt dir nm es)
  have "status_agrees rt empty_results" by (simp add: status_agrees_def empty_results_def)
  with 1 show ?case by simp
next
  case (7 rt dir nm content rest acc)
  obtain acc' threw where cf: "collect_file rt dir nm content acc = (acc', threw)"
    by (cases "collect_file rt dir nm content acc")
  have a: "status_agrees rt acc'"
    using status_agrees_collect_file [OF "7.prems", of dir nm content] cf by simp
  show ?case
  proof (cases threw)
    case True
    with cf a show ?thesis by simp
  next
    case False
    with cf a "7.IH" show ?thesis by simp
  qed
next
  case (2 rt dir nm c)
  show ?case by (simp add: status_agrees_def empty_results_def)
next
  case (3 rt dir nm)
  show ?case by (simp add: status_agrees_def empty_results_def)
next
  case (4 rt dir acc)
  then show ?case by simp
next
  case (5 rt dir nm es rest acc)
  then show ?case by (simp add: status_agrees_merge_sub)
next
  case (6 rt dir nm rest acc)
  then show ?case by (simp add: status_agrees_merge_sub)
qed

lemma finalStatus_no_summary:
  assumes "c_summary (collectTestResults rt dir node) = None" and "code \<noteq> CodeNum 0"
  shows "finalStatus (c_status (collectTestResults rt dir node)) code = ''failed''"
  using status_agrees_collect(1) [of rt dir node] assms
  by (simp add: status_agrees_def finalStatus_def)

lemma collected_skipped_only:
  "collectTestResults rt_reports ''/tmp/t/results'' results_skipped_only =
     \<lparr>c_screenshots = [], c_logs = [],
      c_reports = [\<lparr>report_name = ''results.json'', report_path = ''/tmp/t/results/results.json'',
                    report_content = JsonContent (JObj [(''stats'', JObj [(''skipped'', JNum 1)])])\<rparr>],
      c_status = ''unknown'',
      c_summary = Some \<lparr>s_total = JNum 0, s_passed = JNum 0, s_failed = JNum 0, s_skipped = JNum 1,
                         s_duration = JNum 0\<rparr>\<rparr>"
  by (simp add: results_skipped_only_def rt_reports_def rt_ok_def collect_file_def extname_def
      toLowerCase_def lower_char_def startsWith_def empty_results_def stats_status_def
      stats_summary_def js_gt0_def jget_def or_else_def Let_def)

text \<open>
  Claim C1, as stated, fails: a report whose stats count neither a passed nor a failed test
  gives a structured summary, and the status is then taken from the exit code, not left
  \<open>unknown\<close>.
\<close>

theorem finalStatus_precedence_counterexample:
  "c_summary (collectTestResults rt_reports ''/tmp/t/results'' results_skipped_only) \<noteq> None
   \<and> spec_status rt_reports (c_summary (collectTestResults rt_reports ''/tmp/t/results'' results_skipped_only))
        (CodeNum 0) = ''unknown''
   \<and> finalStatus (c_status (collectTestResults rt_reports ''/tmp/t/results'' results_skipped_only))
        (CodeNum 0) = ''passed''"
  by (simp add: collected_skipped_only spec_status_def finalStatus_def js_gt0_def)

text \<open>
  Claim C1, amended. For every results directory and exit code: the status is \<open>failed\<close>
  when the collected summary has a positive failed count, else \<open>passed\<close> when it has a
  positive passed count; in every other case (no structured summary, or a summary with
  neither) the exit code decides, 0 giving \<open>passed\<close> and anything else \<open>failed\<close>.
\<close>

theorem finalStatus_precedence:
  "finalStatus (c_status (collectTestResults rt dir node)) code =
     (case c_summary (collectTestResults rt dir node) of
        Some s \<Rightarrow> if js_gt0 rt (Some (s_failed s)) then ''failed''
                  else if js_gt0 rt (Some (s_passed s)) then ''passed''
                  else exit_status code
      | None \<Rightarrow> exit_status code)"
proof -
  have "status_agrees rt (collectTestResults rt dir node)"
    by (rule status_agrees_collect(1))
  then show ?thesis
    by (simp add: status_agrees_def finalStatus_def exit_status_def split: option.splits)
qed

theorem finalStatus_precedence_witness:
  "finalStatus (c_status (collectTestResults rt_reports ''/tmp/t/results'' results_skipped_only))
        (CodeNum 2) = ''failed''"
  using finalStatus_precedence [of rt_reports "''/tmp/t/results''" results_skipped_only "CodeNum 2"]
  by (simp add: collected_skipped_only js_gt0_def exit_status_def)

section \<open>The Test Executor: uploads\<close>

lemma uploadBlob_ok:
  assumes "uploadBlob rt w c b d ct = (Inr u, w')"
  shows "u = blob_url rt c b"
    and "trace w' = trace w @ upload_events c b d"
    and "blobs w' = AList.update (c, b) \<lparr>data = d, contentType = ct, lastModified = now rt\<rparr> (blobs w)"
    and "queue w' = queue w"
  using assms
  by (auto simp: uploadBlob_def log_event_def Let_def upload_events_def
           split: sum.splits option.splits)

lemma uploadBlob_failed:
  assumes "uploadBlob rt w c b d ct = (Inl m, w')"
  shows "\<exists>es. trace w' = trace w @ es \<and> (\<forall>e \<in> set es. \<forall>c' b' d'. e \<noteq> Uploaded c' b' d')"
    and "blobs w' = blobs w" and "queue w' = queue w"
  using assms
  by (auto simp: uploadBlob_def log_event_def Let_def split: sum.splits option.splits)

lemma keys_update: "fst ` set (AList.update k v al) = insert k (fst ` set al)"
  by (induction al) auto


lemma upload_screenshots_ok:
  assumes "upload_screenshots rt tid c xs w acc = (Inr out, w')"
  shows "out = acc @ map (\<lambda>s. \<lparr>up_name = file_name s, up_url = blob_url rt c (tid @ ''/screenshots/'' @ file_name s),
                                 up_blobName = tid @ ''/screenshots/'' @ file_name s, up_type = None\<rparr>) xs
       \<and> trace w' = trace w @ concat (map (\<lambda>s. upload_events c (tid @ ''/screenshots/'' @ file_name s) (file_content s)) xs)
       \<and> fst ` set (blobs w') = fst ` set (blobs w) \<union> (\<lambda>s. (c, tid @ ''/screenshots/'' @ file_name s)) ` set xs
       \<and> queue w' = queue w"
  using assms
proof (induction xs arbitrary: w acc)
  case Nil
  then show ?case by simp
next
  case (Cons x xs)
  let ?b = "tid @ ''/screenshots/'' @ file_name x"
  obtain r1 w1 where u: "uploadBlob rt w c ?b (file_content x) ''image/png'' = (r1, w1)"
    by (cases "uploadBlob rt w c ?b (file_content x) ''image/png''")
  show ?case
  proof (cases r1)
    case (Inl m)
    with Cons.prems u show ?thesis by (simp add: Let_def)
  next
    case (Inr url)
    note ok = uploadBlob_ok [OF u [unfolded Inr]]
    have rec: "upload_screenshots rt tid c xs w1
                 (acc @ [\<lparr>up_name = file_name x, up_url = url, up_blobName = ?b, up_type = None\<rparr>]) = (Inr out, w')"
      using Cons.prems u Inr by (simp add: Let_def)
    from Cons.IH [OF rec] ok show ?thesis by (simp add: keys_update)
  qed
qed

lemma upload_screenshots_any:
  assumes "upload_screenshots rt tid c xs w acc = (res, w')"
  shows "\<exists>es. trace w' = trace w @ es \<and> (\<forall>e \<in> set es. \<not> is_summary_upload c tid e)"
  using assms
proof (induction xs arbitrary: w acc)
  case Nil
  then show ?case by simp
next
  case (Cons x xs)
  let ?b = "tid @ ''/screenshots/'' @ file_name x"
  obtain r1 w1 where u: "uploadBlob rt w c ?b (file_content x) ''image/png'' = (r1, w1)"
    by (cases "uploadBlob rt w c ?b (file_content x) ''image/png''")
  show ?case
  proof (cases r1)
    case (Inl m)
    have "w' = w1" using Cons.prems u Inl by (simp add: Let_def)
    with uploadBlob_failed(1) [OF u [unfolded Inl]] show ?thesis
      by (auto simp: is_summary_upload_def split: event.splits)
  next
    case (Inr url)
    note ok = uploadBlob_ok [OF u [unfolded Inr]]
    have rec: "upload_screenshots rt tid c xs w1
                 (acc @ [\<lparr>up_name = file_name x, up_url = url, up_blobName = ?b, up_type = None\<rparr>]) = (res, w')"
      using Cons.prems u Inr by (simp add: Let_def)
    from Cons.IH [OF rec] obtain es where es: "trace w' = trace w1 @ es"
      "\<forall>e \<in> set es. \<not> is_summary_upload c tid e" by blast
    have "\<forall>e \<in> set (upload_events c ?b (file_content x)). \<not> is_summary_upload c tid e"
      by (simp add: upload_events_def is_summary_upload_def)
    with es ok(2) show ?thesis by (intro exI [of _ "upload_events c ?b (file_content x) @ es"]) auto
  qed
qed

lemma upload_logs_ok:
  assumes "upload_logs rt tid c xs w acc = (Inr out, w')"
  shows "out = acc @ map (\<lambda>s. \<lparr>up_name = file_name s, up_url = blob_url rt c (tid @ ''/logs/'' @ file_name s),
                                 up_blobName = tid @ ''/logs/'' @ file_name s, up_type = None\<rparr>) xs
       \<and> trace w' = trace w @ concat (map (\<lambda>s. upload_events c (tid @ ''/logs/'' @ file_name s) (file_content s)) xs)
       \<and> fst ` set (blobs w') = fst ` set (blobs w) \<union> (\<lambda>s. (c, tid @ ''/logs/'' @ file_name s)) ` set xs
       \<and> queue w' = queue w"
  using assms
proof (induction xs arbitrary: w acc)
  case Nil
  then show ?case by simp
next
  case (Cons x xs)
  let ?b = "tid @ ''/logs/'' @ file_name x"
  obtain r1 w1 where u: "uploadBlob rt w c ?b (file_content x) ''text/plain'' = (r1, w1)"
    by (cases "uploadBlob rt w c ?b (file_content x) ''text/plain''")
  show ?case
  proof (cases r1)
    case (Inl m)
    with Cons.prems u show ?thesis by (simp add: Let_def)
  next
    case (Inr url)
    note ok = uploadBlob_ok [OF u [unfolded Inr]]
    have rec: "upload_logs rt tid c xs w1
                 (acc @ [\<lparr>up_name = file_name x, up_url = url, up_blobName = ?b, up_type = None\<rparr>]) = (Inr out, w')"
      using Cons.prems u Inr by (simp add: Let_def)
    from Cons.IH [OF rec] ok show ?thesis by (simp add: keys_update)
  qed
qed

lemma upload_logs_any:
  assumes "upload_logs rt tid c xs w acc = (res, w')"
  shows "\<exists>es. trace w' = trace w @ es \<and> (\<forall>e \<in> set es. \<not> is_summary_upload c tid e)"
  using assms
proof (induction xs arbitrary: w acc)
  case Nil
  then show ?case by simp
next
  case (Cons x xs)
  let ?b = "tid @ ''/logs/'' @ file_name x"
  obtain r1 w1 where u: "uploadBlob rt w c ?b (file_content x) ''text/plain'' = (r1, w1)"
    by (cases "uploadBlob rt w c ?b (file_content x) ''text/plain''")
  show ?case
  proof (cases r1)
    case (Inl m)
    have "w' = w1" using Cons.prems u Inl by (simp add: Let_def)
    with uploadBlob_failed(1) [OF u [unfolded Inl]] show ?thesis
      by (auto simp: is_summary_upload_def split: event.splits)
  next
    case (Inr url)
    note ok = uploadBlob_ok [OF u [unfolded Inr]]
    have rec: "upload_logs rt tid c xs w1
                 (acc @ [\<lparr>up_name = file_name x, up_url = url, up_blobName = ?b, up_type = None\<rparr>]) = (res, w')"
      using Cons.prems u Inr by (simp add: Let_def)
    from Cons.IH [OF rec] obtain es where es: "trace w' = trace w1 @ es"
      "\<forall>e \<in> set es. \<not> is_summary_upload c tid e" by blast
    have "\<forall>e \<in> set (upload_events c ?b (file_content x)). \<not> is_summary_upload c tid e"
      by (simp add: upload_events_def is_summary_upload_def)
    with es ok(2) show ?thesis by (intro exI [of _ "upload_events c ?b (file_content x) @ es"]) auto
  qed
qed

lemma upload_reports_ok:
  assumes "upload_reports rt tid c xs w acc = (Inr out, w')"
  shows "out = acc @ map (\<lambda>s. \<lparr>up_name = report_name s, up_url = blob_url rt c (tid @ ''/reports/'' @ report_name s),
                                 up_blobName = tid @ ''/reports/'' @ report_name s, up_type = Some (report_type s)\<rparr>) xs
       \<and> trace w' = trace w @ concat (map (\<lambda>s. upload_events c (tid @ ''/reports/'' @ report_name s) (report_bytes rt s)) xs)
       \<and> fst ` set (blobs w') = fst ` set (blobs w) \<union> (\<lambda>s. (c, tid @ ''/reports/'' @ report_name s)) ` set xs
       \<and> queue w' = queue w"
  using assms
proof (induction xs arbitrary: w acc)
  case Nil
  then show ?case by simp
next
  case (Cons x xs)
  let ?b = "tid @ ''/reports/'' @ report_name x"
  obtain r1 w1 where u: "uploadBlob rt w c ?b (report_bytes rt x) (if report_type x = ''json'' then ''application/json'' else ''text/html'') = (r1, w1)"
    by (cases "uploadBlob rt w c ?b (report_bytes rt x) (if report_type x = ''json'' then ''application/json'' else ''text/html'')")
  show ?case
  proof (cases r1)
    case (Inl m)
    with Cons.prems u show ?thesis by (simp add: Let_def)
  next
    case (Inr url)
    note ok = uploadBlob_ok [OF u [unfolded Inr]]
    have rec: "upload_reports rt tid c xs w1
                 (acc @ [\<lparr>up_name = report_name x, up_url = url, up_blobName = ?b, up_type = Some (report_type x)\<rparr>]) = (Inr out, w')"
      using Cons.prems u Inr by (simp add: Let_def)
    from Cons.IH [OF rec] ok show ?thesis by (simp add: keys_update)
  qed
qed

lemma upload_reports_any:
  assumes "upload_reports rt tid c xs w acc = (res, w')"
  shows "\<exists>es. trace w' = trace w @ es \<and> (\<forall>e \<in> set es. \<not> is_summary_upload c tid e)"
  using assms
proof (induction xs arbitrary: w acc)
  case Nil
  then show ?case by simp
next
  case (Cons x xs)
  let ?b = "tid @ ''/reports/'' @ report_name x"
  obtain r1 w1 where u: "uploadBlob rt w c ?b (report_bytes rt x) (if report_type x = ''json'' then ''application/json'' else ''text/html'') = (r1, w1)"
    by (cases "uploadBlob rt w c ?b (report_bytes rt x) (if report_type x = ''json'' then ''application/json'' else ''text/html'')")
  show ?case
  proof (cases r1)
    case (Inl m)
    have "w' = w1" using Cons.prems u Inl by (simp add: Let_def)
    with uploadBlob_failed(1) [OF u [unfolded Inl]] show ?thesis
      by (auto simp: is_summary_upload_def split: event.splits)
  next
    case (Inr url)
    note ok = uploadBlob_ok [OF u [unfolded Inr]]
    have rec: "upload_reports rt tid c xs w1
                 (acc @ [\<lparr>up_name = report_name x, up_url = url, up_blobName = ?b, up_type = Some (report_type x)\<rparr>]) = (res, w')"
      using Cons.prems u Inr by (simp add: Let_def)
    from Cons.IH [OF rec] obtain es where es: "trace w' = trace w1 @ es"
      "\<forall>e \<in> set es. \<not> is_summary_upload c tid e" by blast
    have "\<forall>e \<in> set (upload_events c ?b (report_bytes rt x)). \<not> is_summary_upload c tid e"
      by (simp add: upload_events_def is_summary_upload_def)
    with es ok(2) show ?thesis by (intro exI [of _ "upload_events c ?b (report_bytes rt x) @ es"]) auto
  qed
qed

text \<open>
  Claim C3. In a run of \<open>uploadTestResults\<close> that succeeds, the effects on the store are,
  in this order, the uploads of every harvested screenshot, log and report, each
  acknowledged, and then the upload of \<open>{testId}/summary.json\<close>, which is the last effect.
  The document uploaded there lists every harvested item, in its collection, by its name
  and by the URL of the blob \<open>{testId}/{screenshots|logs|reports}/{name}\<close> (reports also
  by their type), and each of these blobs is in the store when the run ends; the result
  returned names the same blobs. In a run that fails, the summary document is not written.
\<close>

theorem uploadTestResults_summary_last:
  assumes run: "uploadTestResults rt w tid r c = (res, w')"
  shows "\<exists>es. trace w' = trace w @ es \<and>
     (case res of
        Inl m \<Rightarrow> \<forall>e \<in> set es. \<not> is_summary_upload c tid e
      | Inr out \<Rightarrow>
          (\<exists>doc.
             es = concat (map (\<lambda>s. upload_events c (tid @ ''/screenshots/'' @ file_name s) (file_content s))
                            (c_screenshots r))
                @ concat (map (\<lambda>l. upload_events c (tid @ ''/logs/'' @ file_name l) (file_content l))
                            (c_logs r))
                @ concat (map (\<lambda>p. upload_events c (tid @ ''/reports/'' @ report_name p) (report_bytes rt p))
                            (c_reports r))
                @ upload_events c (tid @ ''/summary.json'') (json_stringify rt doc)
             \<and> jget doc ''screenshots'' =
                 Some (JArr (map (\<lambda>s. JObj [(''name'', JStr (file_name s)),
                                               (''url'', JStr (blob_url rt c (tid @ ''/screenshots/'' @ file_name s)))])
                               (c_screenshots r)))
             \<and> jget doc ''logs'' =
                 Some (JArr (map (\<lambda>l. JObj [(''name'', JStr (file_name l)),
                                               (''url'', JStr (blob_url rt c (tid @ ''/logs/'' @ file_name l)))])
                               (c_logs r)))
             \<and> jget doc ''reports'' =
                 Some (JArr (map (\<lambda>p. JObj [(''name'', JStr (report_name p)),
                                               (''url'', JStr (blob_url rt c (tid @ ''/reports/'' @ report_name p))),
                                               (''type'', JStr (case report_content p of
                                                                  JsonContent v \<Rightarrow> ''json''
                                                                | HtmlContent h \<Rightarrow> ''html''))])
                               (c_reports r))))
          \<and> u_screenshots out =
               map (\<lambda>s. \<lparr>up_name = file_name s,
                          up_url = blob_url rt c (tid @ ''/screenshots/'' @ file_name s),
                          up_blobName = tid @ ''/screenshots/'' @ file_name s, up_type = None\<rparr>)
                 (c_screenshots r)
          \<and> u_logs out =
               map (\<lambda>l. \<lparr>up_name = file_name l,
                          up_url = blob_url rt c (tid @ ''/logs/'' @ file_name l),
                          up_blobName = tid @ ''/logs/'' @ file_name l, up_type = None\<rparr>)
                 (c_logs r)
          \<and> u_reports out =
               map (\<lambda>p. \<lparr>up_name = report_name p,
                          up_url = blob_url rt c (tid @ ''/reports/'' @ report_name p),
                          up_blobName = tid @ ''/reports/'' @ report_name p,
                          up_type = Some (case report_content p of
                                            JsonContent v \<Rightarrow> ''json''
                                          | HtmlContent h \<Rightarrow> ''html'')\<rparr>)
                 (c_reports r)
          \<and> u_summaryBlobUrl out = blob_url rt c (tid @ ''/summary.json'')
          \<and> (\<forall>s \<in> set (c_screenshots r). (c, tid @ ''/screenshots/'' @ file_name s) \<in> fst ` set (blobs w'))
          \<and> (\<forall>l \<in> set (c_logs r). (c, tid @ ''/logs/'' @ file_name l) \<in> fst ` set (blobs w'))
          \<and> (\<forall>p \<in> set (c_reports r). (c, tid @ ''/reports/'' @ report_name p) \<in> fst ` set (blobs w'))
          \<and> (c, tid @ ''/summary.json'') \<in> fst ` set (blobs w'))"
proof -
  obtain r1 w1 where s1: "upload_screenshots rt tid c (c_screenshots r) w [] = (r1, w1)"
    by (cases "upload_screenshots rt tid c (c_screenshots r) w []")
  from upload_screenshots_any [OF s1] obtain e1 where e1: "trace w1 = trace w @ e1"
    "\<forall>e \<in> set e1. \<not> is_summary_upload c tid e" by blast
  show ?thesis
  proof (cases r1)
    case (Inl m)
    with run s1 have "res = Inl (''Failed to upload test results: '' @ m)" "w' = w1"
      by (simp_all add: uploadTestResults_def)
    with e1 show ?thesis by auto
  next
    case shots: (Inr shots)
    note k1 = upload_screenshots_ok [OF s1 [unfolded shots]]
    obtain r2 w2 where s2: "upload_logs rt tid c (c_logs r) w1 [] = (r2, w2)"
      by (cases "upload_logs rt tid c (c_logs r) w1 []")
    from upload_logs_any [OF s2] obtain e2 where e2: "trace w2 = trace w1 @ e2"
      "\<forall>e \<in> set e2. \<not> is_summary_upload c tid e" by blast
    show ?thesis
    proof (cases r2)
      case (Inl m)
      with run s1 shots s2 have "res = Inl (''Failed to upload test results: '' @ m)" "w' = w2"
        by (simp_all add: uploadTestResults_def)
      with e1 e2 show ?thesis by auto
    next
      case ls: (Inr ls)
      note k2 = upload_logs_ok [OF s2 [unfolded ls]]
      obtain r3 w3 where s3: "upload_reports rt tid c (c_reports r) w2 [] = (r3, w3)"
        by (cases "upload_reports rt tid c (c_reports r) w2 []")
      from upload_reports_any [OF s3] obtain e3 where e3: "trace w3 = trace w2 @ e3"
        "\<forall>e \<in> set e3. \<not> is_summary_upload c tid e" by blast
      show ?thesis
      proof (cases r3)
        case (Inl m)
        with run s1 shots s2 ls s3 have "res = Inl (''Failed to upload test results: '' @ m)" "w' = w3"
          by (simp_all add: uploadTestResults_def)
        with e1 e2 e3 show ?thesis by auto
      next
        case reps: (Inr reps)
        note k3 = upload_reports_ok [OF s3 [unfolded reps]]
        let ?doc = "json_stringify rt (summary_document rt tid r shots ls reps)"
        obtain r4 w4 where s4: "uploadBlob rt w3 c (tid @ ''/summary.json'') ?doc ''application/json'' = (r4, w4)"
          by (cases "uploadBlob rt w3 c (tid @ ''/summary.json'') ?doc ''application/json''")
        show ?thesis
        proof (cases r4)
          case (Inl m)
          with run s1 shots s2 ls s3 reps s4
          have "res = Inl (''Failed to upload test results: '' @ m)" "w' = w4"
            by (simp_all add: uploadTestResults_def)
          moreover from uploadBlob_failed(1) [OF s4 [unfolded Inl]] obtain e4 where
            "trace w4 = trace w3 @ e4" "\<forall>e \<in> set e4. \<not> is_summary_upload c tid e"
            by (auto simp: is_summary_upload_def split: event.splits)
          ultimately show ?thesis using e1 e2 e3 by auto
        next
          case (Inr u)
          note k4 = uploadBlob_ok [OF s4 [unfolded Inr]]
          from run s1 shots s2 ls s3 reps s4 Inr
          have res: "res = Inr \<lparr>u_screenshots = shots, u_logs = ls, u_reports = reps, u_summaryBlobUrl = u\<rparr>"
            and w': "w' = w4"
            by (simp_all add: uploadTestResults_def)
          have tr: "trace w4 = trace w
             @ concat (map (\<lambda>s. upload_events c (tid @ ''/screenshots/'' @ file_name s) (file_content s))
                         (c_screenshots r))
             @ concat (map (\<lambda>l. upload_events c (tid @ ''/logs/'' @ file_name l) (file_content l))
                         (c_logs r))
             @ concat (map (\<lambda>p. upload_events c (tid @ ''/reports/'' @ report_name p) (report_bytes rt p))
                         (c_reports r))
             @ upload_events c (tid @ ''/summary.json'') ?doc"
            using k1 k2 k3 k4(2) by simp
          have keys: "fst ` set (blobs w4) =
                insert (c, tid @ ''/summary.json'')
                  (fst ` set (blobs w)
                   \<union> (\<lambda>s. (c, tid @ ''/screenshots/'' @ file_name s)) ` set (c_screenshots r)
                   \<union> (\<lambda>s. (c, tid @ ''/logs/'' @ file_name s)) ` set (c_logs r)
                   \<union> (\<lambda>s. (c, tid @ ''/reports/'' @ report_name s)) ` set (c_reports r))"
            using k1 k2 k3 k4(3) by (simp add: keys_update)
          have outs: "shots = map (\<lambda>s. \<lparr>up_name = file_name s,
                          up_url = blob_url rt c (tid @ ''/screenshots/'' @ file_name s),
                          up_blobName = tid @ ''/screenshots/'' @ file_name s, up_type = None\<rparr>)
                 (c_screenshots r)"
              "ls = map (\<lambda>l. \<lparr>up_name = file_name l,
                          up_url = blob_url rt c (tid @ ''/logs/'' @ file_name l),
                          up_blobName = tid @ ''/logs/'' @ file_name l, up_type = None\<rparr>)
                 (c_logs r)"
              "reps = map (\<lambda>p. \<lparr>up_name = report_name p,
                          up_url = blob_url rt c (tid @ ''/reports/'' @ report_name p),
                          up_blobName = tid @ ''/reports/'' @ report_name p,
                          up_type = Some (case report_content p of
                                            JsonContent v \<Rightarrow> ''json''
                                          | HtmlContent h \<Rightarrow> ''html'')\<rparr>)
                 (c_reports r)"
            using k1 k2 k3 by (simp_all add: report_type_def)
          have stored: "\<forall>s \<in> set (c_screenshots r). (c, tid @ ''/screenshots/'' @ file_name s) \<in> fst ` set (blobs w4)"
              "\<forall>l \<in> set (c_logs r). (c, tid @ ''/logs/'' @ file_name l) \<in> fst ` set (blobs w4)"
              "\<forall>p \<in> set (c_reports r). (c, tid @ ''/reports/'' @ report_name p) \<in> fst ` set (blobs w4)"
              "(c, tid @ ''/summary.json'') \<in> fst ` set (blobs w4)"
            unfolding keys by auto
          let ?d = "summary_document rt tid r shots ls reps"
          have lists: "jget ?d ''screenshots'' =
                 Some (JArr (map (\<lambda>s. JObj [(''name'', JStr (file_name s)),
                                               (''url'', JStr (blob_url rt c (tid @ ''/screenshots/'' @ file_name s)))])
                               (c_screenshots r)))"
             "jget ?d ''logs'' =
                 Some (JArr (map (\<lambda>l. JObj [(''name'', JStr (file_name l)),
                                               (''url'', JStr (blob_url rt c (tid @ ''/logs/'' @ file_name l)))])
                               (c_logs r)))"
             "jget ?d ''reports'' =
                 Some (JArr (map (\<lambda>p. JObj [(''name'', JStr (report_name p)),
                                               (''url'', JStr (blob_url rt c (tid @ ''/reports/'' @ report_name p))),
                                               (''type'', JStr (case report_content p of
                                                                  JsonContent v \<Rightarrow> ''json''
                                                                | HtmlContent h \<Rightarrow> ''html''))])
                               (c_reports r)))"
            unfolding outs
            by (simp_all add: summary_document_def jget_def name_url_def name_url_type_def comp_def)
          have doc: "\<exists>doc.
             concat (map (\<lambda>s. upload_events c (tid @ ''/screenshots/'' @ file_name s) (file_content s))
                            (c_screenshots r))
                @ concat (map (\<lambda>l. upload_events c (tid @ ''/logs/'' @ file_name l) (file_content l))
                            (c_logs r))
                @ concat (map (\<lambda>p. upload_events c (tid @ ''/reports/'' @ report_name p) (report_bytes rt p))
                            (c_reports r))
                @ upload_events c (tid @ ''/summary.json'') ?doc
              = concat (map (\<lambda>s. upload_events c (tid @ ''/screenshots/'' @ file_name s) (file_content s))
                            (c_screenshots r))
                @ concat (map (\<lambda>l. upload_events c (tid @ ''/logs/'' @ file_name l) (file_content l))
                            (c_logs r))
                @ concat (map (\<lambda>p. upload_events c (tid @ ''/reports/'' @ report_name p) (report_bytes rt p))
                            (c_reports r))
                @ upload_events c (tid @ ''/summary.json'') (json_stringify rt doc)
             \<and> jget doc ''screenshots'' =
                 Some (JArr (map (\<lambda>s. JObj [(''name'', JStr (file_name s)),
                                               (''url'', JStr (blob_url rt c (tid @ ''/screenshots/'' @ file_name s)))])
                               (c_screenshots r)))
             \<and> jget doc ''logs'' =
                 Some (JArr (map (\<lambda>l. JObj [(''name'', JStr (file_name l)),
                                               (''url'', JStr (blob_url rt c (tid @ ''/logs/'' @ file_name l)))])
                               (c_logs r)))
             \<and> jget doc ''reports'' =
                 Some (JArr (map (\<lambda>p. JObj [(''name'', JStr (report_name p)),
                                               (''url'', JStr (blob_url rt c (tid @ ''/reports/'' @ report_name p))),
                                               (''type'', JStr (case report_content p of
                                                                  JsonContent v \<Rightarrow> ''json''
                                                                | HtmlContent h \<Rightarrow> ''html''))])
                               (c_reports r)))"
            using lists by (intro exI [of _ ?d]) simp
          show ?thesis
            unfolding res w'
            apply (rule exI, rule conjI, rule tr)
            apply (simp only: sum.case upload_results.select_convs)
            apply (intro conjI doc outs stored k4(1))
            done
        qed
      qed
    qed
  qed
qed

lemmas eval_defs =
  uploadTestResults_def uploadBlob_def getContainerClient_def getBlobServiceClient_def
  str_or_def env_or_def rt_ok_def log_event_def clock_def blob_url_def Let_def
  report_bytes_def report_type_def summary_document_def stats_json_def

theorem uploadTestResults_summary_last_witness:
  "\<exists>doc.
     trace (snd (uploadTestResults rt_ok world_empty ''r1'' harvest_small ''test-results'')) =
       [ContainerEnsured ''test-results'', Uploaded ''test-results'' ''r1/screenshots/a.png'' ''PNG'',
        ContainerEnsured ''test-results'', Uploaded ''test-results'' ''r1/logs/run.log'' ''boom'',
        ContainerEnsured ''test-results'', Uploaded ''test-results'' ''r1/reports/index.html'' ''<html/>'',
        ContainerEnsured ''test-results'',
        Uploaded ''test-results'' ''r1/summary.json'' (json_stringify rt_ok doc)]
     \<and> jget doc ''screenshots'' =
         Some (JArr [JObj [(''name'', JStr ''a.png''),
                           (''url'', JStr ''https://acct.blob.core.windows.net/test-results/r1/screenshots/a.png'')]])
     \<and> jget doc ''logs'' =
         Some (JArr [JObj [(''name'', JStr ''run.log''),
                           (''url'', JStr ''https://acct.blob.core.windows.net/test-results/r1/logs/run.log'')]])
     \<and> jget doc ''reports'' =
         Some (JArr [JObj [(''name'', JStr ''index.html''),
                           (''url'', JStr ''https://acct.blob.core.windows.net/test-results/r1/reports/index.html''),
                           (''type'', JStr ''html'')]])
     \<and> (''test-results'', ''r1/screenshots/a.png'')
           \<in> fst ` set (blobs (snd (uploadTestResults rt_ok world_empty ''r1'' harvest_small ''test-results'')))
     \<and> (''test-results'', ''r1/logs/run.log'')
           \<in> fst ` set (blobs (snd (uploadTestResults rt_ok world_empty ''r1'' harvest_small ''test-results'')))
     \<and> (''test-results'', ''r1/reports/index.html'')
           \<in> fst ` set (blobs (snd (uploadTestResults rt_ok world_empty ''r1'' harvest_small ''test-results'')))"
proof -
  obtain res w' where run: "uploadTestResults rt_ok world_empty ''r1'' harvest_small ''test-results'' = (res, w')"
    by (cases "uploadTestResults rt_ok world_empty ''r1'' harvest_small ''test-results''")
  have "\<exists>out. fst (uploadTestResults rt_ok world_empty ''r1'' harvest_small ''test-results'') = Inr out"
    by (simp add: eval_defs world_empty_def harvest_small_def)
  with run obtain out where out: "res = Inr out" by auto
  from uploadTestResults_summary_last [OF run] out
  obtain doc where d:
    "trace w' = trace world_empty
       @ concat (map (\<lambda>s. upload_events ''test-results'' (''r1'' @ ''/screenshots/'' @ file_name s) (file_content s))
                            (c_screenshots harvest_small))
       @ concat (map (\<lambda>l. upload_events ''test-results'' (''r1'' @ ''/logs/'' @ file_name l) (file_content l))
                            (c_logs harvest_small))
       @ concat (map (\<lambda>p. upload_events ''test-results'' (''r1'' @ ''/reports/'' @ report_name p) (report_bytes rt_ok p))
                            (c_reports harvest_small))
       @ upload_events ''test-results'' (''r1'' @ ''/summary.json'') (json_stringify rt_ok doc)"
    "jget doc ''screenshots'' =
                 Some (JArr (map (\<lambda>s. JObj [(''name'', JStr (file_name s)),
                                               (''url'', JStr (blob_url rt_ok ''test-results'' (''r1'' @ ''/screenshots/'' @ file_name s)))])
                               (c_screenshots harvest_small)))"
    "jget doc ''logs'' =
                 Some (JArr (map (\<lambda>l. JObj [(''name'', JStr (file_name l)),
                                               (''url'', JStr (blob_url rt_ok ''test-results'' (''r1'' @ ''/logs/'' @ file_name l)))])
                               (c_logs harvest_small)))"
    "jget doc ''reports'' =
                 Some (JArr (map (\<lambda>p. JObj [(''name'', JStr (report_name p)),
                                               (''url'', JStr (blob_url rt_ok ''test-results'' (''r1'' @ ''/reports/'' @ report_name p))),
                                               (''type'', JStr (case report_content p of
                                                                  JsonContent v \<Rightarrow> ''json''
                                                                | HtmlContent h \<Rightarrow> ''html''))])
                               (c_reports harvest_small)))"
    and st: "\<forall>s \<in> set (c_screenshots harvest_small). (''test-results'', ''r1'' @ ''/screenshots/'' @ file_name s) \<in> fst ` set (blobs w')"
       "\<forall>l \<in> set (c_logs harvest_small). (''test-results'', ''r1'' @ ''/logs/'' @ file_name l) \<in> fst ` set (blobs w')"
       "\<forall>p \<in> set (c_reports harvest_small). (''test-results'', ''r1'' @ ''/reports/'' @ report_name p) \<in> fst ` set (blobs w')"
    by auto
  have w: "snd (uploadTestResults rt_ok world_empty ''r1'' harvest_small ''test-results'') = w'"
    using run by simp
  show ?thesis
    unfolding w
    apply (rule exI [of _ doc])
    using d st
    apply (simp add: world_empty_def harvest_small_def upload_events_def report_bytes_def
        blob_url_def rt_ok_def)
    done
qed

section \<open>The Test Executor: timeouts and launch failures\<close>

lemma code_or_1_nonzero: "code_or_1 c \<noteq> CodeNum 0"
  by (simp add: code_or_1_def split: js_code.splits)

lemma collected_status_cases:
  "c_status (collectTestResults rt dir node) \<in> {''failed'', ''passed'', ''unknown''}"
  using status_agrees_collect(1) [of rt dir node]
  by (simp add: status_agrees_def split: option.splits if_splits)

lemma finalStatus_cases:
  "s \<in> {''failed'', ''passed'', ''unknown''} \<Longrightarrow> finalStatus s code \<in> {''failed'', ''passed''}"
  by (auto simp: finalStatus_def)

lemma runTestsWithMount_exec_failed:
  assumes "exec sb = Inl e" "writeFile sb = None" "mkdir sb = None"
    and "runTestsWithMount sb script = Inr er"
  shows "exitCode er = code_or_1 (err_code e)"
  using assms
  by (auto simp: runTestsWithMount_def exec_failed_def Let_def split: if_splits sum.splits)

lemma RunTests_returned:
  assumes "RunTests rt sb w q = (Inr resp, w')"
  shows "\<exists>script er. runTestsWithMount sb script = Inr er
           \<and> r_exitCode resp = exitCode er
           \<and> r_status resp = finalStatus (c_status (collectTestResults rt (resultsPath er) (results sb))) (exitCode er)
           \<and> r_summary resp = c_summary (collectTestResults rt (resultsPath er) (results sb))"
proof -
  from assms obtain script er where "runTestsWithMount sb script = Inr er"
      "resp = \<lparr>r_testId = r_testId resp, r_workItemId = r_workItemId resp,
               r_status = finalStatus (c_status (collectTestResults rt (resultsPath er) (results sb))) (exitCode er),
               r_summary = c_summary (collectTestResults rt (resultsPath er) (results sb)),
               r_exitCode = exitCode er,
               r_screenshots = r_screenshots resp, r_logs = r_logs resp, r_reports = r_reports resp,
               r_summaryBlobUrl = r_summaryBlobUrl resp, r_executedAt = r_executedAt resp\<rparr>"
    by (auto simp: RunTests_def catch_block_def Let_def split: if_splits sum.splits prod.splits)
  then show ?thesis
    by (metis run_response.select_convs(3) run_response.select_convs(4) run_response.select_convs(5))
qed

lemma RunTests_timeout_run:
  "fst (RunTests rt_ok sb_timeout world_script envelope_r1) =
     Inr \<lparr>r_testId = ''r1'', r_workItemId = JNull, r_status = ''failed'', r_summary = None,
          r_exitCode = CodeNum 1, r_screenshots = [], r_logs = [], r_reports = [],
          r_summaryBlobUrl = ''https://acct.blob.core.windows.net/test-results/r1/summary.json'',
          r_executedAt = ''2024-01-01T09:00:00.000Z''\<rparr>"
  by (simp add: RunTests_def envelope_r1_def str_field_def jget_def or_else_def updateJobStatus_def
      downloadBlobAsString_def world_script_def sb_timeout_def runTestsWithMount_def exec_failed_def
      code_or_1_def empty_results_def finalStatus_def eval_defs)

text \<open>
  Claim C8, as stated, fails: when the command is killed by the wall-clock timeout the run
  is reported with status \<open>failed\<close>, not \<open>error\<close>.
\<close>

theorem RunTests_timeout_status_counterexample:
  "exec sb_timeout =
     Inl \<lparr>err_code = CodeNull, err_killed = True, err_message = ''Command failed: docker run'',
          err_stdout = Some [], err_stderr = Some []\<rparr>
   \<and> fst (RunTests rt_ok sb_timeout world_script envelope_r1) =
     Inr \<lparr>r_testId = ''r1'', r_workItemId = JNull, r_status = ''failed'', r_summary = None,
          r_exitCode = CodeNum 1, r_screenshots = [], r_logs = [], r_reports = [],
          r_summaryBlobUrl = ''https://acct.blob.core.windows.net/test-results/r1/summary.json'',
          r_executedAt = ''2024-01-01T09:00:00.000Z''\<rparr>
   \<and> ''failed'' \<noteq> ''error''"
  by (simp add: RunTests_def envelope_r1_def str_field_def jget_def or_else_def updateJobStatus_def
      downloadBlobAsString_def world_script_def sb_timeout_def runTestsWithMount_def exec_failed_def
      code_or_1_def empty_results_def finalStatus_def eval_defs)

lemma uploadBlob_answers:
  assumes "getBlobServiceClient rt = Inr ()" and "c \<noteq> []"
    and "\<forall>n c b. fault rt n (CreateContainer c) = None \<and> fault rt n (BlobUpload c b) = None"
  shows "\<exists>u w'. uploadBlob rt w c b d ct = (Inr u, w')"
  using assms by (simp add: uploadBlob_def getContainerClient_def Let_def)

lemma upload_screenshots_answers:
  assumes "getBlobServiceClient rt = Inr ()" and "c \<noteq> []"
    and "\<forall>n c b. fault rt n (CreateContainer c) = None \<and> fault rt n (BlobUpload c b) = None"
  shows "\<exists>out w'. upload_screenshots rt tid c xs w acc = (Inr out, w')"
proof (induction xs arbitrary: w acc)
  case Nil
  show ?case by simp
next
  case (Cons x xs)
  obtain u w1 where
    "uploadBlob rt w c (tid @ ''/screenshots/'' @ file_name x) (file_content x) ''image/png'' = (Inr u, w1)"
    using uploadBlob_answers [OF assms] by blast
  then show ?case using Cons.IH by (simp add: Let_def)
qed

lemma upload_logs_answers:
  assumes "getBlobServiceClient rt = Inr ()" and "c \<noteq> []"
    and "\<forall>n c b. fault rt n (CreateContainer c) = None \<and> fault rt n (BlobUpload c b) = None"
  shows "\<exists>out w'. upload_logs rt tid c xs w acc = (Inr out, w')"
proof (induction xs arbitrary: w acc)
  case Nil
  show ?case by simp
next
  case (Cons x xs)
  obtain u w1 where
    "uploadBlob rt w c (tid @ ''/logs/'' @ file_name x) (file_content x) ''text/plain'' = (Inr u, w1)"
    using uploadBlob_answers [OF assms] by blast
  then show ?case using Cons.IH by (simp add: Let_def)
qed

lemma upload_reports_answers:
  assumes "getBlobServiceClient rt = Inr ()" and "c \<noteq> []"
    and "\<forall>n c b. fault rt n (CreateContainer c) = None \<and> fault rt n (BlobUpload c b) = None"
  shows "\<exists>out w'. upload_reports rt tid c xs w acc = (Inr out, w')"
proof (induction xs arbitrary: w acc)
  case Nil
  show ?case by simp
next
  case (Cons x xs)
  obtain u w1 where
    "uploadBlob rt w c (tid @ ''/reports/'' @ report_name x) (report_bytes rt x)
       (if report_type x = ''json'' then ''application/json'' else ''text/html'') = (Inr u, w1)"
    using uploadBlob_answers [OF assms] by blast
  then show ?case using Cons.IH by (simp add: Let_def)
qed

lemma uploadTestResults_answers:
  assumes "getBlobServiceClient rt = Inr ()" and "c \<noteq> []"
    and "\<forall>n c b. fault rt n (CreateContainer c) = None \<and> fault rt n (BlobUpload c b) = None"
  shows "\<exists>out w'. uploadTestResults rt w tid r c = (Inr out, w')"
proof -
  obtain shots w1 where a: "upload_screenshots rt tid c (c_screenshots r) w [] = (Inr shots, w1)"
    using upload_screenshots_answers [OF assms] by blast
  obtain ls w2 where b: "upload_logs rt tid c (c_logs r) w1 [] = (Inr ls, w2)"
    using upload_logs_answers [OF assms] by blast
  obtain reps w3 where d: "upload_reports rt tid c (c_reports r) w2 [] = (Inr reps, w3)"
    using upload_reports_answers [OF assms] by blast
  obtain u w4 where e: "uploadBlob rt w3 c (tid @ ''/summary.json'')
                          (json_stringify rt (summary_document rt tid r shots ls reps))
                          ''application/json'' = (Inr u, w4)"
    using uploadBlob_answers [OF assms] by blast
  show ?thesis using a b d e by (simp add: uploadTestResults_def)
qed

lemma updateJobStatus_blobs: "blobs (updateJobStatus rt w qn m) = blobs w"
  by (simp add: updateJobStatus_def enqueueMessage_def log_event_def Let_def
      split: sum.splits option.splits)

lemma downloadBlobAsString_answers:
  assumes "getBlobServiceClient rt = Inr ()" and "c \<noteq> []"
    and "\<forall>n c b. fault rt n (BlobExists c b) = None \<and> fault rt n (BlobDownload c b) = None"
    and "map_of (blobs w) (c, b) = Some bl"
  shows "downloadBlobAsString rt w c b = Inr (data bl)"
  using assms by (simp add: downloadBlobAsString_def getContainerClient_def)

lemma str_or_nonempty: "d \<noteq> [] \<Longrightarrow> str_or a d \<noteq> []"
  by (simp add: str_or_def split: option.splits)

lemma RunTests_timeout_returns:
  assumes fail: "exec sb = Inl e" and fs: "writeFile sb = None" "mkdir sb = None"
    and tmp: "mkdtemp sb = Inr tmp"
    and conn: "getBlobServiceClient rt = Inr ()"
    and store: "\<forall>n c b. fault rt n (CreateContainer c) = None \<and> fault rt n (BlobUpload c b) = None
                  \<and> fault rt n (BlobExists c b) = None \<and> fault rt n (BlobDownload c b) = None"
    and item: "truthy q" "str_field q ''scriptBlobName'' = Some nm" "nm \<noteq> []"
    and script: "map_of (blobs w) (str_or (str_field q ''containerName'') ''test-scripts'', nm) = Some b"
      "data b \<noteq> []"
  shows "\<exists>resp w'. RunTests rt sb w q = (Inr resp, w')"
proof -
  let ?tid = "str_or (str_field q ''testId'') (str_or (str_field q ''id'') (uuid rt (clock w) 0))"
  let ?wid = "or_else (jget q ''workItemId'') JNull"
  let ?sc = "str_or (str_field q ''containerName'') ''test-scripts''"
  let ?rc = "env_or rt ''RESULTS_CONTAINER_NAME'' ''test-results''"
  let ?sq = "env_or rt ''JOB_STATUS_QUEUE_NAME'' []"
  let ?w1 = "updateJobStatus rt w ?sq (status_message ?tid ?wid ''started'' [] (now rt))"
  let ?er = "exec_failed (tmp @ ''/results'') e"
  let ?tr = "collectTestResults rt (resultsPath ?er) (results sb)"
  have nm: "str_or (str_field q ''scriptBlobName'') [] = nm"
    using item(2,3) by (simp add: str_or_def)
  have "map_of (blobs ?w1) (?sc, nm) = Some b"
    using script(1) by (simp add: updateJobStatus_blobs)
  then have dl: "downloadBlobAsString rt ?w1 ?sc nm = Inr (data b)"
    using store by (intro downloadBlobAsString_answers [OF conn str_or_nonempty]) simp_all
  have run: "runTestsWithMount sb (data b) = Inr ?er"
    using script(2) fail fs tmp by (simp add: runTestsWithMount_def Let_def)
  obtain out w2 where up: "uploadTestResults rt ?w1 ?tid ?tr ?rc = (Inr out, w2)"
  proof -
    have "\<exists>out w2. uploadTestResults rt ?w1 ?tid ?tr ?rc = (Inr out, w2)"
      using store by (intro uploadTestResults_answers [OF conn results_container_nonempty]) simp
    then show ?thesis using that by blast
  qed
  show ?thesis
    using item(1,3) nm dl run up by (simp add: RunTests_def Let_def)
qed

text \<open>
  Claim C8, amended. When the docker command times out or fails to launch,
  \<open>runTestsWithMount\<close> does not throw: it returns a result whose exit code is not 0 (it
  is 1 after a timeout). Every response that the entry point returns for such a run has
  the status \<open>failed\<close> or \<open>passed\<close>, never \<open>error\<close> and never \<open>unknown\<close>, and it is
  \<open>failed\<close> when no structured summary was harvested. The entry point does return such
  a response rather than throw when the queue item names a stored, nonempty script, the
  temporary directory can be made, the connection string is set and the blob store answers
  (the status queue may fail).
\<close>

theorem RunTests_timeout_status:
  assumes fail: "exec sb = Inl e" and fs: "writeFile sb = None" "mkdir sb = None"
  shows "(\<forall>(script::string) tmp. script \<noteq> [] \<and> mkdtemp sb = Inr tmp
            \<longrightarrow> runTestsWithMount sb script = Inr (exec_failed (tmp @ ''/results'') e)
                \<and> exitCode (exec_failed (tmp @ ''/results'') e) \<noteq> CodeNum 0
                \<and> (err_code e = CodeNull \<longrightarrow> exitCode (exec_failed (tmp @ ''/results'') e) = CodeNum 1))
       \<and> (\<forall>resp w'. RunTests rt sb w q = (Inr resp, w')
            \<longrightarrow> r_exitCode resp \<noteq> CodeNum 0
                \<and> r_status resp \<in> {''failed'', ''passed''}
                \<and> (r_summary resp = None \<longrightarrow> r_status resp = ''failed''))
       \<and> (\<forall>tmp nm b.
             mkdtemp sb = Inr tmp
             \<and> getBlobServiceClient rt = Inr ()
             \<and> (\<forall>n c k. fault rt n (CreateContainer c) = None \<and> fault rt n (BlobUpload c k) = None
                     \<and> fault rt n (BlobExists c k) = None \<and> fault rt n (BlobDownload c k) = None)
             \<and> truthy q \<and> str_field q ''scriptBlobName'' = Some nm \<and> nm \<noteq> []
             \<and> map_of (blobs w) (str_or (str_field q ''containerName'') ''test-scripts'', nm) = Some b
             \<and> data b \<noteq> []
            \<longrightarrow> (\<exists>resp w'. RunTests rt sb w q = (Inr resp, w')
                   \<and> r_exitCode resp \<noteq> CodeNum 0
                   \<and> r_status resp \<in> {''failed'', ''passed''}
                   \<and> (r_summary resp = None \<longrightarrow> r_status resp = ''failed'')))"
proof -
  have c1: "runTestsWithMount sb script = Inr (exec_failed (tmp @ ''/results'') e)
            \<and> exitCode (exec_failed (tmp @ ''/results'') e) \<noteq> CodeNum 0
            \<and> (err_code e = CodeNull \<longrightarrow> exitCode (exec_failed (tmp @ ''/results'') e) = CodeNum 1)"
    if h: "script \<noteq> [] \<and> mkdtemp sb = Inr tmp" for script :: string and tmp
  proof (intro conjI impI)
    show "runTestsWithMount sb script = Inr (exec_failed (tmp @ ''/results'') e)"
      using h fail fs by (simp add: runTestsWithMount_def Let_def)
    show "exitCode (exec_failed (tmp @ ''/results'') e) \<noteq> CodeNum 0"
      by (simp add: exec_failed_def code_or_1_nonzero)
    show "exitCode (exec_failed (tmp @ ''/results'') e) = CodeNum 1" if "err_code e = CodeNull"
      using that by (simp add: exec_failed_def code_or_1_def)
  qed
  have c2: "r_exitCode resp \<noteq> CodeNum 0
            \<and> r_status resp \<in> {''failed'', ''passed''}
            \<and> (r_summary resp = None \<longrightarrow> r_status resp = ''failed'')"
    if run: "RunTests rt sb w q = (Inr resp, w')" for resp w'
  proof (intro conjI impI)
    from RunTests_returned [OF run] obtain script er where
      er: "runTestsWithMount sb script = Inr er" "r_exitCode resp = exitCode er"
        "r_status resp = finalStatus (c_status (collectTestResults rt (resultsPath er) (results sb))) (exitCode er)"
        "r_summary resp = c_summary (collectTestResults rt (resultsPath er) (results sb))"
      by blast
    have code: "exitCode er \<noteq> CodeNum 0"
      using runTestsWithMount_exec_failed [OF fail fs er(1)] code_or_1_nonzero by simp
    show "r_exitCode resp \<noteq> CodeNum 0" using code er(2) by simp
    show "r_status resp \<in> {''failed'', ''passed''}"
      using finalStatus_cases [OF collected_status_cases] er(3) by simp
    show "r_status resp = ''failed''" if "r_summary resp = None"
      using that er(3,4) code finalStatus_no_summary [of rt "resultsPath er" "results sb" "exitCode er"]
      by simp
  qed
  have c3: "\<exists>resp w'. RunTests rt sb w q = (Inr resp, w')
                   \<and> r_exitCode resp \<noteq> CodeNum 0
                   \<and> r_status resp \<in> {''failed'', ''passed''}
                   \<and> (r_summary resp = None \<longrightarrow> r_status resp = ''failed'')"
    if h: "mkdtemp sb = Inr tmp
             \<and> getBlobServiceClient rt = Inr ()
             \<and> (\<forall>n c k. fault rt n (CreateContainer c) = None \<and> fault rt n (BlobUpload c k) = None
                     \<and> fault rt n (BlobExists c k) = None \<and> fault rt n (BlobDownload c k) = None)
             \<and> truthy q \<and> str_field q ''scriptBlobName'' = Some nm \<and> nm \<noteq> []
             \<and> map_of (blobs w) (str_or (str_field q ''containerName'') ''test-scripts'', nm) = Some b
             \<and> data b \<noteq> []" for tmp nm b
  proof -
    obtain resp w' where run: "RunTests rt sb w q = (Inr resp, w')"
      using RunTests_timeout_returns [OF fail fs, of tmp rt q nm w b] h by blast
    with c2 [OF run] show ?thesis by auto
  qed
  show ?thesis
  proof (intro conjI)
    show "\<forall>(script::string) tmp. script \<noteq> [] \<and> mkdtemp sb = Inr tmp
            \<longrightarrow> runTestsWithMount sb script = Inr (exec_failed (tmp @ ''/results'') e)
                \<and> exitCode (exec_failed (tmp @ ''/results'') e) \<noteq> CodeNum 0
                \<and> (err_code e = CodeNull \<longrightarrow> exitCode (exec_failed (tmp @ ''/results'') e) = CodeNum 1)"
      by (intro allI impI) (rule c1)
    show "\<forall>resp w'. RunTests rt sb w q = (Inr resp, w')
            \<longrightarrow> r_exitCode resp \<noteq> CodeNum 0
                \<and> r_status resp \<in> {''failed'', ''passed''}
                \<and> (r_summary resp = None \<longrightarrow> r_status resp = ''failed'')"
      by (intro allI impI) (rule c2)
    show "\<forall>tmp nm b.
             mkdtemp sb = Inr tmp
             \<and> getBlobServiceClient rt = Inr ()
             \<and> (\<forall>n c k. fault rt n (CreateContainer c) = None \<and> fault rt n (BlobUpload c k) = None
                     \<and> fault rt n (BlobExists c k) = None \<and> fault rt n (BlobDownload c k) = None)
             \<and> truthy q \<and> str_field q ''scriptBlobName'' = Some nm \<and> nm \<noteq> []
             \<and> map_of (blobs w) (str_or (str_field q ''containerName'') ''test-scripts'', nm) = Some b
             \<and> data b \<noteq> []
            \<longrightarrow> (\<exists>resp w'. RunTests rt sb w q = (Inr resp, w')
                   \<and> r_exitCode resp \<noteq> CodeNum 0
                   \<and> r_status resp \<in> {''failed'', ''passed''}
                   \<and> (r_summary resp = None \<longrightarrow> r_status resp = ''failed''))"
      by (intro allI impI) (rule c3)
  qed
qed

theorem RunTests_timeout_status_witness:
  "runTestsWithMount sb_timeout ''test(ok)'' =
     Inr \<lparr>exitCode = CodeNum 1, stdout = [], stderr = ''Command failed: docker run'',
          resultsPath = ''/tmp/playwright-test-abc/results'', resultFiles = []\<rparr>
   \<and> (\<exists>resp w'. RunTests rt_ok sb_timeout world_script envelope_r1 = (Inr resp, w')
         \<and> r_status resp = ''failed'' \<and> r_exitCode resp \<noteq> CodeNum 0)"
proof -
  let ?e = "\<lparr>err_code = CodeNull, err_killed = True, err_message = ''Command failed: docker run'',
                  err_stdout = Some [], err_stderr = Some []\<rparr>"
  let ?b = "\<lparr>data = ''test(ok)'', contentType = ''application/javascript'',
                 lastModified = ''2024-01-01T08:00:00.000Z''\<rparr>"
  have h1: "exec sb_timeout = Inl ?e" by (simp add: sb_timeout_def)
  have h2: "writeFile sb_timeout = None" "mkdir sb_timeout = None" by (simp_all add: sb_timeout_def)
  note T = RunTests_timeout_status [OF h1 h2, of rt_ok world_script envelope_r1]
  have a: "''test(ok)'' \<noteq> [] \<and> mkdtemp sb_timeout = Inr ''/tmp/playwright-test-abc''"
    by (simp add: sb_timeout_def)
  from T a have "runTestsWithMount sb_timeout ''test(ok)'' = Inr (exec_failed (''/tmp/playwright-test-abc'' @ ''/results'') ?e)"
    by blast
  then have p1: "runTestsWithMount sb_timeout ''test(ok)'' =
     Inr \<lparr>exitCode = CodeNum 1, stdout = [], stderr = ''Command failed: docker run'',
          resultsPath = ''/tmp/playwright-test-abc/results'', resultFiles = []\<rparr>"
    by (simp add: exec_failed_def code_or_1_def str_or_def)
  have b: "mkdtemp sb_timeout = Inr ''/tmp/playwright-test-abc''
             \<and> getBlobServiceClient rt_ok = Inr ()
             \<and> (\<forall>n c k. fault rt_ok n (CreateContainer c) = None \<and> fault rt_ok n (BlobUpload c k) = None
                     \<and> fault rt_ok n (BlobExists c k) = None \<and> fault rt_ok n (BlobDownload c k) = None)
             \<and> truthy envelope_r1 \<and> str_field envelope_r1 ''scriptBlobName'' = Some ''r1/test.spec.js''
             \<and> ''r1/test.spec.js'' \<noteq> []
             \<and> map_of (blobs world_script)
                 (str_or (str_field envelope_r1 ''containerName'') ''test-scripts'', ''r1/test.spec.js'') = Some ?b
             \<and> data ?b \<noteq> []"
    by (simp add: sb_timeout_def getBlobServiceClient_def rt_ok_def envelope_r1_def str_field_def
        jget_def str_or_def world_script_def)
  from T b obtain resp w' where run: "RunTests rt_ok sb_timeout world_script envelope_r1 = (Inr resp, w')"
    and st: "r_exitCode resp \<noteq> CodeNum 0" "r_summary resp = None \<longrightarrow> r_status resp = ''failed''"
    by blast
  have "r_summary resp = None"
    using RunTests_timeout_run run by simp
  with run st p1 show ?thesis by blast
qed

section \<open>The Scenario/Script Generator: combined, then separate\<close>


lemma complete_trace: "complete rt w p = (r, w') \<Longrightarrow> trace w' = trace w @ [Prompted p]"
  by (auto simp: complete_def log_event_def)

lemma complete_world:
  "complete rt w p = (r, w') \<Longrightarrow> blobs w' = blobs w \<and> queue w' = queue w \<and> containers w' = containers w"
  by (auto simp: complete_def log_event_def)











section \<open>The Pipeline Orchestrator: write before enqueue\<close>

lemma uploadBlob_failed_quiet:
  assumes "uploadBlob rt w c b d ct = (Inl m, w')"
  shows "\<exists>es. trace w' = trace w @ es \<and> (\<forall>e \<in> set es. \<not> is_enqueue e)"
  using assms
  by (auto simp: uploadBlob_def log_event_def Let_def is_enqueue_def split: sum.splits option.splits)

lemma enqueueMessage_ok:
  assumes "enqueueMessage rt w q m = (Inr u, w')"
  shows "trace w' = trace w @ [QueueEnsured q, Enqueued q m]"
    and "queue w' = queue w @ [(q, m)]" and "blobs w' = blobs w"
  using assms
  by (auto simp: enqueueMessage_def log_event_def Let_def split: sum.splits option.splits)

lemma enqueueMessage_failed:
  assumes "enqueueMessage rt w q m = (Inl msg, w')"
  shows "\<exists>es. trace w' = trace w @ es \<and> (\<forall>e \<in> set es. \<not> is_enqueue e)"
    and "queue w' = queue w" and "blobs w' = blobs w"
  using assms
  by (auto simp: enqueueMessage_def log_event_def Let_def is_enqueue_def split: sum.splits option.splits)

lemma notifyTeams_world:
  assumes "notifyTeams rt w hook = (ok, w')"
  shows "\<exists>e. trace w' = trace w @ [e] \<and> \<not> is_enqueue e"
    and "queue w' = queue w" and "blobs w' = blobs w"
  using assms
  by (auto simp: notifyTeams_def log_event_def is_enqueue_def split: option.splits)

lemma complete_quiet:
  assumes "complete rt w p = (r, w')"
  shows "\<exists>es. trace w' = trace w @ es \<and> (\<forall>e \<in> set es. \<not> is_enqueue e)"
  using complete_trace [OF assms] by (simp add: is_enqueue_def)

lemma generateExploratoryScenarios_world:
  assumes "generateExploratoryScenarios rt w wi = (r, w')"
  shows "\<exists>es. trace w' = trace w @ es \<and> (\<forall>e \<in> set es. \<not> is_enqueue e)"
    and "queue w' = queue w" and "blobs w' = blobs w"
proof -
  obtain r1 w1 where c: "complete rt w (GeneratorScenariosPrompt wi) = (r1, w1)"
    by (cases "complete rt w (GeneratorScenariosPrompt wi)")
  have "w' = w \<or> w' = w1"
    using assms c
    by (auto simp: generateExploratoryScenarios_def Let_def split: sum.splits option.splits if_splits)
  then show "\<exists>es. trace w' = trace w @ es \<and> (\<forall>e \<in> set es. \<not> is_enqueue e)"
    and "queue w' = queue w" and "blobs w' = blobs w"
    using complete_quiet [OF c] complete_world [OF c] by auto
qed

lemma generatePlaywrightTestScript_world:
  assumes "generatePlaywrightTestScript rt w wi scs = (r, w')"
  shows "\<exists>es. trace w' = trace w @ es \<and> (\<forall>e \<in> set es. \<not> is_enqueue e)"
    and "queue w' = queue w" and "blobs w' = blobs w"
proof -
  let ?p = "GeneratorScriptPrompt wi (case scs of [] \<Rightarrow> JStr ''Test the main functionality'' | s # rest \<Rightarrow> s)"
  obtain r1 w1 where c: "complete rt w ?p = (r1, w1)"
    by (cases "complete rt w ?p")
  have "w' = w \<or> w' = w1"
    using assms c
    by (auto simp: generatePlaywrightTestScript_def Let_def split: sum.splits option.splits if_splits)
  then show "\<exists>es. trace w' = trace w @ es \<and> (\<forall>e \<in> set es. \<not> is_enqueue e)"
    and "queue w' = queue w" and "blobs w' = blobs w"
    using complete_quiet [OF c] complete_world [OF c] by auto
qed

lemma processWorkItem_outcome:
  assumes run: "processWorkItem rt w wi = (res, w')"
    and b: "b = uuid rt (clock w) 0 @ ''/test.spec.js''"
    and c: "c = env_or rt ''STORAGE_CONTAINER_NAME'' ''test-scripts''"
    and q: "q = env_or rt ''TEST_EXECUTION_QUEUE_NAME'' ''test-execution-queue''"
    and envl: "envl = execution_envelope (uuid rt (clock w) 0) wi b c"
  shows "\<exists>es. trace w' = trace w @ es \<and> fst ` set (blobs w) \<subseteq> fst ` set (blobs w') \<and>
      ((wr_status res = ''error'' \<and> queue w' = queue w \<and> (\<forall>e \<in> set es. \<not> is_enqueue e)) \<or>
       (wr_status res = ''unknown'' \<and> queue w' = queue w @ [(q, envl)]
        \<and> automatedTestScripts res = [blob_url rt c b]
        \<and> (\<exists>pre script post.
              es = pre @ upload_events c b script @ [QueueEnsured q, Enqueued q envl] @ post
              \<and> (\<forall>e \<in> set pre. \<not> is_enqueue e) \<and> (\<forall>e \<in> set post. \<not> is_enqueue e)
              \<and> map_of (blobs w') (c, b) =
                  Some \<lparr>data = script, contentType = ''application/javascript'', lastModified = now rt\<rparr>)))"
proof -
  let ?tid = "uuid rt (clock w) 0"
  obtain r1 w1 where s1: "generateExploratoryScenarios rt w wi = (r1, w1)"
    by (cases "generateExploratoryScenarios rt w wi")
  from generateExploratoryScenarios_world [OF s1] obtain e1 where
    e1: "trace w1 = trace w @ e1" "\<forall>e \<in> set e1. \<not> is_enqueue e" "queue w1 = queue w" "blobs w1 = blobs w"
    by blast
  show ?thesis
  proof (cases r1)
    case (Inl m)
    with run s1 have "wr_status res = ''error''" "w' = w1"
      by (auto simp: processWorkItem_def Let_def)
    with e1 show ?thesis by auto
  next
    case scs: (Inr scs)
    obtain r2 w2 where s2: "generatePlaywrightTestScript rt w1 wi scs = (r2, w2)"
      by (cases "generatePlaywrightTestScript rt w1 wi scs")
    from generatePlaywrightTestScript_world [OF s2] obtain e2 where
      e2: "trace w2 = trace w1 @ e2" "\<forall>e \<in> set e2. \<not> is_enqueue e" "queue w2 = queue w1" "blobs w2 = blobs w1"
      by blast
    show ?thesis
    proof (cases r2)
      case (Inl m)
      with run s1 scs s2 have "wr_status res = ''error''" "w' = w2"
        by (auto simp: processWorkItem_def Let_def)
      with e1 e2 show ?thesis by auto
    next
      case script: (Inr script)
      obtain r3 w3 where s3: "uploadBlob rt w2 c b script ''application/javascript'' = (r3, w3)"
        by (cases "uploadBlob rt w2 c b script ''application/javascript''")
      show ?thesis
      proof (cases r3)
        case (Inl m)
        with run s1 scs s2 script s3 b c have st: "wr_status res = ''error''" and w': "w' = w3"
          by (auto simp: processWorkItem_def Let_def)
        from uploadBlob_failed_quiet [OF s3 [unfolded Inl]] obtain e3 where
          e3: "trace w3 = trace w2 @ e3" "\<forall>e \<in> set e3. \<not> is_enqueue e" by blast
        have "blobs w3 = blobs w2" "queue w3 = queue w2"
          using uploadBlob_failed(2,3) [OF s3 [unfolded Inl]] by simp_all
        with st w' e1 e2 e3 show ?thesis by auto
      next
        case u: (Inr u)
        note k3 = uploadBlob_ok [OF s3 [unfolded u]]
        obtain r4 w4 where s4: "enqueueMessage rt w3 q envl = (r4, w4)"
          by (cases "enqueueMessage rt w3 q envl")
        have keys3: "fst ` set (blobs w) \<subseteq> fst ` set (blobs w3)"
          using k3(3) e1(4) e2(4) by (auto simp: keys_update)
        show ?thesis
        proof (cases r4)
          case (Inl m)
          with run s1 scs s2 script s3 u s4 b c q envl
          have st: "wr_status res = ''error''" and w': "w' = w4"
            by (auto simp: processWorkItem_def Let_def)
          from enqueueMessage_failed [OF s4 [unfolded Inl]] obtain e4 where
            e4: "trace w4 = trace w3 @ e4" "\<forall>e \<in> set e4. \<not> is_enqueue e"
              "queue w4 = queue w3" "blobs w4 = blobs w3" by blast
          have "\<forall>e \<in> set (upload_events c b script). \<not> is_enqueue e"
            by (simp add: upload_events_def is_enqueue_def)
          with st w' e1 e2 k3 e4 keys3 show ?thesis
            by (intro exI [of _ "e1 @ e2 @ upload_events c b script @ e4"]) auto
        next
          case ok: (Inr x)
          note k4 = enqueueMessage_ok [OF s4 [unfolded ok]]
          have stored: "map_of (blobs w4) (c, b) =
                  Some \<lparr>data = script, contentType = ''application/javascript'', lastModified = now rt\<rparr>"
            using k4(3) k3(3) by (simp add: update_conv')
          have keys4: "fst ` set (blobs w) \<subseteq> fst ` set (blobs w4)" using keys3 k4(3) by simp
          have qu: "queue w4 = queue w @ [(q, envl)]" using k4(2) k3(4) e2(3) e1(3) by simp
          have tr4: "trace w4 = trace w @ (e1 @ e2) @ upload_events c b script @ [QueueEnsured q, Enqueued q envl] @ []"
            using e1(1) e2(1) k3(2) k4(1) by simp
          have url: "u = blob_url rt c b" using k3(1) .
          show ?thesis
          proof (cases "str_or (env rt ''TEAMS_WEBHOOK_URL'') [] = []")
            case True
            with run s1 scs s2 script s3 u s4 ok b c q envl
            have st: "wr_status res = ''unknown''" "automatedTestScripts res = [u]" and w': "w' = w4"
              by (auto simp: processWorkItem_def Let_def)
            have "\<exists>pre scr post.
              (e1 @ e2) @ upload_events c b script @ [QueueEnsured q, Enqueued q envl] @ []
                = pre @ upload_events c b scr @ [QueueEnsured q, Enqueued q envl] @ post
              \<and> (\<forall>e \<in> set pre. \<not> is_enqueue e) \<and> (\<forall>e \<in> set post. \<not> is_enqueue e)
              \<and> map_of (blobs w4) (c, b) =
                  Some \<lparr>data = scr, contentType = ''application/javascript'', lastModified = now rt\<rparr>"
              using e1(2) e2(2) stored
              by (intro exI [of _ "e1 @ e2"] exI [of _ script] exI [of _ "[]"]) auto
            with st w' tr4 keys4 qu url show ?thesis by blast
          next
            case False
            let ?hook = "str_or (env rt ''TEAMS_WEBHOOK_URL'') []"
            obtain sent w5 where s5: "notifyTeams rt w4 ?hook = (sent, w5)"
              by (cases "notifyTeams rt w4 ?hook")
            from notifyTeams_world [OF s5] obtain e5 where
              e5: "trace w5 = trace w4 @ [e5]" "\<not> is_enqueue e5" "queue w5 = queue w4" "blobs w5 = blobs w4"
              by blast
            from run s1 scs s2 script s3 u s4 ok b c q envl False s5
            have st: "wr_status res = ''unknown''" "automatedTestScripts res = [u]" and w': "w' = w5"
              by (auto simp: processWorkItem_def Let_def split: bool.splits)
            have tr5: "trace w5 = trace w @ (e1 @ e2) @ upload_events c b script @ [QueueEnsured q, Enqueued q envl] @ [e5]"
              using tr4 e5(1) by simp
            have "\<exists>pre scr post.
              (e1 @ e2) @ upload_events c b script @ [QueueEnsured q, Enqueued q envl] @ [e5]
                = pre @ upload_events c b scr @ [QueueEnsured q, Enqueued q envl] @ post
              \<and> (\<forall>e \<in> set pre. \<not> is_enqueue e) \<and> (\<forall>e \<in> set post. \<not> is_enqueue e)
              \<and> map_of (blobs w5) (c, b) =
                  Some \<lparr>data = scr, contentType = ''application/javascript'', lastModified = now rt\<rparr>"
              using e1(2) e2(2) stored e5(2,4)
              by (intro exI [of _ "e1 @ e2"] exI [of _ script] exI [of _ "[e5]"]) auto
            moreover have "fst ` set (blobs w) \<subseteq> fst ` set (blobs w5)" using keys4 e5(4) by simp
            moreover have "queue w5 = queue w @ [(q, envl)]" using qu e5(3) by simp
            ultimately show ?thesis using st w' tr5 url by blast
          qed
        qed
      qed
    qed
  qed
qed

lemma env_or_nonempty: "d \<noteq> [] \<Longrightarrow> env_or rt x d \<noteq> []"
  by (simp add: env_or_def str_or_def split: option.splits)

lemma envelope_fields:
  "str_field (execution_envelope tid wi b c) ''scriptBlobName'' = Some b"
  "str_field (execution_envelope tid wi b c) ''containerName'' = Some c"
  by (simp_all add: execution_envelope_def str_field_def jget_def opt_field_def split: option.splits)

lemma no_orphans_grows:
  assumes "no_orphans w" and "fst ` set (blobs w) \<subseteq> fst ` set (blobs w')"
    and "\<forall>qm \<in> set (queue w'). qm \<in> set (queue w)
           \<or> (\<forall>b. str_field (snd qm) ''scriptBlobName'' = Some b \<longrightarrow>
                 (str_or (str_field (snd qm) ''containerName'') ''test-scripts'', b) \<in> fst ` set (blobs w'))"
  shows "no_orphans w'"
  unfolding no_orphans_def
proof (intro ballI allI impI)
  fix qm b
  assume mem: "qm \<in> set (queue w')" and f: "str_field (snd qm) ''scriptBlobName'' = Some b"
  from assms(3) mem have "qm \<in> set (queue w)
           \<or> (\<forall>b. str_field (snd qm) ''scriptBlobName'' = Some b \<longrightarrow>
                 (str_or (str_field (snd qm) ''containerName'') ''test-scripts'', b) \<in> fst ` set (blobs w'))"
    by (rule bspec)
  then show "(str_or (str_field (snd qm) ''containerName'') ''test-scripts'', b) \<in> fst ` set (blobs w')"
  proof
    assume "qm \<in> set (queue w)"
    with assms(1) f have "(str_or (str_field (snd qm) ''containerName'') ''test-scripts'', b) \<in> fst ` set (blobs w)"
      unfolding no_orphans_def by blast
    with assms(2) show ?thesis by (rule subsetD)
  next
    assume "\<forall>b. str_field (snd qm) ''scriptBlobName'' = Some b \<longrightarrow>
                 (str_or (str_field (snd qm) ''containerName'') ''test-scripts'', b) \<in> fst ` set (blobs w')"
    with f show ?thesis by blast
  qed
qed

lemmas gen_eval_defs =
  processWorkItem_def generateExploratoryScenarios_def generatePlaywrightTestScript_def
  generator_getOpenAIClient_def complete_def enqueueMessage_def getQueueClient_def
  execution_envelope_def opt_field_def trim_def is_space_def startsWith_def
  rt_gen_def work_item_42_def world_empty_def jget_def

lemma processWorkItem_run_status:
  "wr_status (fst (processWorkItem rt_gen world_empty work_item_42)) = ''unknown''"
  by (simp add: gen_eval_defs eval_defs)

text \<open>
  Claim C2. In every run of \<open>processWorkItem\<close> that does not end in the error result, the
  effects contain, in this order and next to each other, the acknowledged upload of the
  test script under \<open>{testId}/test.spec.js\<close> and the enqueue of the execution envelope
  that names this blob; nothing else is enqueued. In a run that ends in the error result
  nothing is enqueued.
\<close>

theorem processWorkItem_write_before_enqueue:
  assumes run: "processWorkItem rt w wi = (res, w')"
    and b: "b = uuid rt (clock w) 0 @ ''/test.spec.js''"
    and c: "c = env_or rt ''STORAGE_CONTAINER_NAME'' ''test-scripts''"
    and q: "q = env_or rt ''TEST_EXECUTION_QUEUE_NAME'' ''test-execution-queue''"
    and envl: "envl = execution_envelope (uuid rt (clock w) 0) wi b c"
  shows "\<exists>es. trace w' = trace w @ es \<and>
     (if wr_status res = ''error'' then \<forall>e \<in> set es. \<not> is_enqueue e
      else \<exists>pre script post.
             es = pre @ [ContainerEnsured c, Uploaded c b script, QueueEnsured q, Enqueued q envl] @ post
             \<and> (\<forall>e \<in> set (pre @ post). \<not> is_enqueue e)
             \<and> str_field envl ''scriptBlobName'' = Some b
             \<and> str_field envl ''containerName'' = Some c)"
proof -
  from processWorkItem_outcome [OF run b c q envl] obtain es where
    es: "trace w' = trace w @ es"
    and alt: "(wr_status res = ''error'' \<and> queue w' = queue w \<and> (\<forall>e \<in> set es. \<not> is_enqueue e)) \<or>
       (wr_status res = ''unknown'' \<and> queue w' = queue w @ [(q, envl)]
        \<and> automatedTestScripts res = [blob_url rt c b]
        \<and> (\<exists>pre script post.
              es = pre @ upload_events c b script @ [QueueEnsured q, Enqueued q envl] @ post
              \<and> (\<forall>e \<in> set pre. \<not> is_enqueue e) \<and> (\<forall>e \<in> set post. \<not> is_enqueue e)
              \<and> map_of (blobs w') (c, b) =
                  Some \<lparr>data = script, contentType = ''application/javascript'', lastModified = now rt\<rparr>))"
    by blast
  from alt show ?thesis
  proof
    assume "wr_status res = ''error'' \<and> queue w' = queue w \<and> (\<forall>e \<in> set es. \<not> is_enqueue e)"
    with es show ?thesis by auto
  next
    assume ok: "wr_status res = ''unknown'' \<and> queue w' = queue w @ [(q, envl)]
        \<and> automatedTestScripts res = [blob_url rt c b]
        \<and> (\<exists>pre script post.
              es = pre @ upload_events c b script @ [QueueEnsured q, Enqueued q envl] @ post
              \<and> (\<forall>e \<in> set pre. \<not> is_enqueue e) \<and> (\<forall>e \<in> set post. \<not> is_enqueue e)
              \<and> map_of (blobs w') (c, b) =
                  Some \<lparr>data = script, contentType = ''application/javascript'', lastModified = now rt\<rparr>)"
    then obtain pre script post where
      d: "es = pre @ upload_events c b script @ [QueueEnsured q, Enqueued q envl] @ post"
         "\<forall>e \<in> set pre. \<not> is_enqueue e" "\<forall>e \<in> set post. \<not> is_enqueue e" by blast
    have "es = pre @ [ContainerEnsured c, Uploaded c b script, QueueEnsured q, Enqueued q envl] @ post"
      using d(1) by (simp add: upload_events_def)
    moreover have "\<forall>e \<in> set (pre @ post). \<not> is_enqueue e" using d(2,3) by auto
    moreover have "wr_status res \<noteq> ''error''" using ok by simp
    ultimately show ?thesis using es envelope_fields [of _ wi b c] envl by auto
  qed
qed

theorem processWorkItem_write_before_enqueue_witness:
  "wr_status (fst (processWorkItem rt_gen world_empty work_item_42)) \<noteq> ''error''
   \<and> (\<exists>pre script post.
         trace (snd (processWorkItem rt_gen world_empty work_item_42)) =
           pre @ [ContainerEnsured ''test-scripts'',
                  Uploaded ''test-scripts'' ''run-1/test.spec.js'' script,
                  QueueEnsured ''test-execution-queue'',
                  Enqueued ''test-execution-queue''
                    (JObj [(''testId'', JStr ''run-1''), (''workItemId'', JStr ''42''),
                           (''scriptBlobName'', JStr ''run-1/test.spec.js''),
                           (''containerName'', JStr ''test-scripts''),
                           (''title'', JStr ''Login form'')])] @ post)"
proof -
  obtain res w' where run: "processWorkItem rt_gen world_empty work_item_42 = (res, w')"
    by (cases "processWorkItem rt_gen world_empty work_item_42")
  have st: "wr_status res \<noteq> ''error''" using processWorkItem_run_status run by simp
  from processWorkItem_write_before_enqueue [OF run refl refl refl refl] st
  obtain es pre script post where
    "trace w' = trace world_empty @ es"
    "es = pre @ [ContainerEnsured (env_or rt_gen ''STORAGE_CONTAINER_NAME'' ''test-scripts''),
                 Uploaded (env_or rt_gen ''STORAGE_CONTAINER_NAME'' ''test-scripts'')
                   (uuid rt_gen (clock world_empty) 0 @ ''/test.spec.js'') script,
                 QueueEnsured (env_or rt_gen ''TEST_EXECUTION_QUEUE_NAME'' ''test-execution-queue''),
                 Enqueued (env_or rt_gen ''TEST_EXECUTION_QUEUE_NAME'' ''test-execution-queue'')
                   (execution_envelope (uuid rt_gen (clock world_empty) 0) work_item_42
                      (uuid rt_gen (clock world_empty) 0 @ ''/test.spec.js'')
                      (env_or rt_gen ''STORAGE_CONTAINER_NAME'' ''test-scripts''))] @ post"
    by auto
  then have "trace w' = pre @ [ContainerEnsured ''test-scripts'',
                  Uploaded ''test-scripts'' ''run-1/test.spec.js'' script,
                  QueueEnsured ''test-execution-queue'',
                  Enqueued ''test-execution-queue''
                    (JObj [(''testId'', JStr ''run-1''), (''workItemId'', JStr ''42''),
                           (''scriptBlobName'', JStr ''run-1/test.spec.js''),
                           (''containerName'', JStr ''test-scripts''),
                           (''title'', JStr ''Login form'')])] @ post"
    by (simp add: world_empty_def rt_gen_def rt_ok_def env_or_def str_or_def execution_envelope_def
        opt_field_def work_item_42_def jget_def)
  with st run show ?thesis by auto
qed

text \<open>
  Claim C4. For every work item exactly one of two outcomes holds: the result has the
  status \<open>error\<close> and the queue is as before; or the result is not an error, it carries
  the URL of the stored script, the script is in the store, and one envelope naming it has
  been added to the queue. A world without orphaned envelopes stays without them.
\<close>

theorem processWorkItem_no_orphans:
  assumes run: "processWorkItem rt w wi = (res, w')"
    and b: "b = uuid rt (clock w) 0 @ ''/test.spec.js''"
    and c: "c = env_or rt ''STORAGE_CONTAINER_NAME'' ''test-scripts''"
    and q: "q = env_or rt ''TEST_EXECUTION_QUEUE_NAME'' ''test-execution-queue''"
    and envl: "envl = execution_envelope (uuid rt (clock w) 0) wi b c"
  shows "((wr_status res = ''error'' \<and> queue w' = queue w)
          \<noteq> (wr_status res \<noteq> ''error'' \<and> automatedTestScripts res = [blob_url rt c b]
               \<and> (c, b) \<in> fst ` set (blobs w') \<and> queue w' = queue w @ [(q, envl)]
               \<and> str_field envl ''scriptBlobName'' = Some b
               \<and> str_field envl ''containerName'' = Some c))
       \<and> (no_orphans w \<longrightarrow> no_orphans w')"
proof -
  from processWorkItem_outcome [OF run b c q envl] obtain es where
    keys: "fst ` set (blobs w) \<subseteq> fst ` set (blobs w')"
    and alt: "(wr_status res = ''error'' \<and> queue w' = queue w \<and> (\<forall>e \<in> set es. \<not> is_enqueue e)) \<or>
       (wr_status res = ''unknown'' \<and> queue w' = queue w @ [(q, envl)]
        \<and> automatedTestScripts res = [blob_url rt c b]
        \<and> (\<exists>pre script post.
              es = pre @ upload_events c b script @ [QueueEnsured q, Enqueued q envl] @ post
              \<and> (\<forall>e \<in> set pre. \<not> is_enqueue e) \<and> (\<forall>e \<in> set post. \<not> is_enqueue e)
              \<and> map_of (blobs w') (c, b) =
                  Some \<lparr>data = script, contentType = ''application/javascript'', lastModified = now rt\<rparr>))"
    by blast
  have cne: "c \<noteq> []" using c env_or_nonempty by simp
  let ?A = "wr_status res = ''error'' \<and> queue w' = queue w"
  let ?B = "wr_status res \<noteq> ''error'' \<and> automatedTestScripts res = [blob_url rt c b]
               \<and> (c, b) \<in> fst ` set (blobs w') \<and> queue w' = queue w @ [(q, envl)]
               \<and> str_field envl ''scriptBlobName'' = Some b
               \<and> str_field envl ''containerName'' = Some c"
  from alt show ?thesis
  proof
    assume err: "wr_status res = ''error'' \<and> queue w' = queue w \<and> (\<forall>e \<in> set es. \<not> is_enqueue e)"
    then have a: ?A and nb: "\<not> ?B" by simp_all
    have "\<forall>qm \<in> set (queue w'). qm \<in> set (queue w)
           \<or> (\<forall>b. str_field (snd qm) ''scriptBlobName'' = Some b \<longrightarrow>
                 (str_or (str_field (snd qm) ''containerName'') ''test-scripts'', b) \<in> fst ` set (blobs w'))"
      using err by simp
    then have "no_orphans w \<longrightarrow> no_orphans w'" using no_orphans_grows [OF _ keys] by blast
    with a nb show ?thesis by blast
  next
    assume ok: "wr_status res = ''unknown'' \<and> queue w' = queue w @ [(q, envl)]
        \<and> automatedTestScripts res = [blob_url rt c b]
        \<and> (\<exists>pre script post.
              es = pre @ upload_events c b script @ [QueueEnsured q, Enqueued q envl] @ post
              \<and> (\<forall>e \<in> set pre. \<not> is_enqueue e) \<and> (\<forall>e \<in> set post. \<not> is_enqueue e)
              \<and> map_of (blobs w') (c, b) =
                  Some \<lparr>data = script, contentType = ''application/javascript'', lastModified = now rt\<rparr>)"
    then obtain v where "map_of (blobs w') (c, b) = Some v" by blast
    then have stored: "(c, b) \<in> fst ` set (blobs w')"
      by (metis map_of_SomeD fst_conv image_eqI)
    have fields: "str_field envl ''scriptBlobName'' = Some b" "str_field envl ''containerName'' = Some c"
      using envelope_fields [of _ wi b c] envl by simp_all
    have st: "wr_status res = ''unknown''" and qu: "queue w' = queue w @ [(q, envl)]"
      and scr: "automatedTestScripts res = [blob_url rt c b]" using ok by simp_all
    have na: "\<not> ?A" using st by simp
    have bb: ?B using st qu scr stored fields by simp
    have new: "(str_or (str_field envl ''containerName'') ''test-scripts'', b') \<in> fst ` set (blobs w')"
      if "str_field envl ''scriptBlobName'' = Some b'" for b'
      using that fields cne stored by (simp add: str_or_def)
    have "\<forall>qm \<in> set (queue w'). qm \<in> set (queue w)
           \<or> (\<forall>b. str_field (snd qm) ''scriptBlobName'' = Some b \<longrightarrow>
                 (str_or (str_field (snd qm) ''containerName'') ''test-scripts'', b) \<in> fst ` set (blobs w'))"
    proof
      fix qm assume "qm \<in> set (queue w')"
      then have "qm \<in> set (queue w) \<or> qm = (q, envl)" using qu by auto
      then show "qm \<in> set (queue w)
           \<or> (\<forall>b. str_field (snd qm) ''scriptBlobName'' = Some b \<longrightarrow>
                 (str_or (str_field (snd qm) ''containerName'') ''test-scripts'', b) \<in> fst ` set (blobs w'))"
        using new by auto
    qed
    then have "no_orphans w \<longrightarrow> no_orphans w'" using no_orphans_grows [OF _ keys] by blast
    with na bb show ?thesis by blast
  qed
qed

theorem processWorkItem_no_orphans_witness:
  "no_orphans world_empty
   \<and> wr_status (fst (processWorkItem rt_gen world_empty work_item_42)) \<noteq> ''error''
   \<and> (''test-scripts'', ''run-1/test.spec.js'') \<in> fst ` set (blobs (snd (processWorkItem rt_gen world_empty work_item_42)))
   \<and> queue (snd (processWorkItem rt_gen world_empty work_item_42)) =
       [(''test-execution-queue'',
         JObj [(''testId'', JStr ''run-1''), (''workItemId'', JStr ''42''),
               (''scriptBlobName'', JStr ''run-1/test.spec.js''),
               (''containerName'', JStr ''test-scripts''),
               (''title'', JStr ''Login form'')])]
   \<and> no_orphans (snd (processWorkItem rt_gen world_empty work_item_42))"
proof -
  obtain res w' where run: "processWorkItem rt_gen world_empty work_item_42 = (res, w')"
    by (cases "processWorkItem rt_gen world_empty work_item_42")
  have st: "wr_status res \<noteq> ''error''" using processWorkItem_run_status run by simp
  have n0: "no_orphans world_empty" by (simp add: no_orphans_def world_empty_def)
  note T = processWorkItem_no_orphans [OF run refl refl refl refl]
  from T st n0 have
    "(env_or rt_gen ''STORAGE_CONTAINER_NAME'' ''test-scripts'',
      uuid rt_gen (clock world_empty) 0 @ ''/test.spec.js'') \<in> fst ` set (blobs w')"
    "queue w' = queue world_empty @
       [(env_or rt_gen ''TEST_EXECUTION_QUEUE_NAME'' ''test-execution-queue'',
         execution_envelope (uuid rt_gen (clock world_empty) 0) work_item_42
                      (uuid rt_gen (clock world_empty) 0 @ ''/test.spec.js'')
                      (env_or rt_gen ''STORAGE_CONTAINER_NAME'' ''test-scripts''))]"
    "no_orphans w'"
    by blast+
  then show ?thesis using st n0 run
    by (simp add: world_empty_def rt_gen_def rt_ok_def env_or_def str_or_def execution_envelope_def
        opt_field_def work_item_42_def jget_def)
qed

end
